theory Spec2Isabelle
  imports Main "HOL-Library.AList" "HOL-Library.Sublist"
begin

section \<open>Values loaded from a state document\<close>

text \<open>
  \<^verbatim>\<open>ensureStateV1(rawState: any)\<close> of \<^verbatim>\<open>src/core/state.ts\<close> receives whatever
  \<^verbatim>\<open>yaml.load\<close> produced, so the model works on untyped JavaScript values: the
  primitives, arrays, and objects as lists of key/value pairs in insertion order.
  A value of this type is a finite tree: documents whose YAML aliases make a value
  contain itself are values of the heap model further down.
  Numbers are integers here; a non-integral number behaves in every test of this file
  (truthiness, loose equality with \<^verbatim>\<open>"1"\<close>) like an integer other than 0 and 1, and
  NaN like 0.
\<close>

datatype json =
    JUndefined
  | JNull
  | JBool bool
  | JNum int
  | JStr string
  | JArr "json list"
  | JObj "(string \<times> json) list"

text \<open>JavaScript truthiness, the test behind \<^verbatim>\<open>if(x)\<close> and \<^verbatim>\<open>!x\<close>.\<close>

fun truthy :: "json \<Rightarrow> bool" where
  "truthy JUndefined = False"
| "truthy JNull = False"
| "truthy (JBool b) = b"
| "truthy (JNum n) = (n \<noteq> 0)"
| "truthy (JStr s) = (s \<noteq> [])"
| "truthy (JArr xs) = True"
| "truthy (JObj kvs) = True"

text \<open>\<^verbatim>\<open>null\<close> and \<^verbatim>\<open>undefined\<close>: reading a property of either throws a TypeError,
  and they are the values \<^verbatim>\<open>??\<close> and \<^verbatim>\<open>?.\<close> test for.\<close>

fun nullish :: "json \<Rightarrow> bool" where
  "nullish JUndefined = True"
| "nullish JNull = True"
| "nullish v = False"

text \<open>
  The property read \<^verbatim>\<open>v.k\<close> on a value that is not nullish. An object yields the
  value stored under the key or \<^verbatim>\<open>undefined\<close> (a YAML mapping has no key twice, so
  which of two equal keys is read does not arise). None of the keys the program reads
  is a built-in property of a string, number, boolean or array, so those yield
  \<^verbatim>\<open>undefined\<close>. The program never reads a property of a nullish value but at
  \<^verbatim>\<open>rawState.version\<close>, where the model raises the TypeError itself: every other read
  is behind a truthiness test of the value read from, or is an optional chain.
\<close>

fun getprop :: "json \<Rightarrow> string \<Rightarrow> json" where
  "getprop (JObj kvs) k = (case map_of kvs k of None \<Rightarrow> JUndefined | Some v \<Rightarrow> v)"
| "getprop v k = JUndefined"

text \<open>Optional chaining \<^verbatim>\<open>v?.k\<close>.\<close>

definition optprop :: "json \<Rightarrow> string \<Rightarrow> json" where
  "optprop v k = (if nullish v then JUndefined else getprop v k)"

text \<open>Nullish coalescing \<^verbatim>\<open>a ?? b\<close>.\<close>

definition coalesce :: "json \<Rightarrow> json \<Rightarrow> json" where
  "coalesce a b = (if nullish a then b else a)"

text \<open>
  \<^verbatim>\<open>String(v) === "1"\<close>, needed for the loose comparison below. An array converts by
  joining its elements with commas, a nullish element giving the empty string, so only
  a one-element array can convert to \<^verbatim>\<open>"1"\<close>; an object converts to
  \<^verbatim>\<open>"[object Object]"\<close> and a boolean to \<^verbatim>\<open>"true"\<close> or \<^verbatim>\<open>"false"\<close>.
\<close>

fun string_is_1 :: "json \<Rightarrow> bool" where
  "string_is_1 (JStr s) = (s = ''1'')"
| "string_is_1 (JNum n) = (n = 1)"
| "string_is_1 (JArr [x]) = string_is_1 x"
| "string_is_1 v = False"

text \<open>
  The loose equality \<^verbatim>\<open>v == "1"\<close>: a string compares as a string, a number with the
  number 1, a boolean as the number it converts to, an array or object through its
  string conversion; \<^verbatim>\<open>null\<close> and \<^verbatim>\<open>undefined\<close> equal no string.
\<close>

fun loose_eq_1 :: "json \<Rightarrow> bool" where
  "loose_eq_1 (JStr s) = (s = ''1'')"
| "loose_eq_1 (JNum n) = (n = 1)"
| "loose_eq_1 (JBool b) = b"
| "loose_eq_1 (JArr xs) = string_is_1 (JArr xs)"
| "loose_eq_1 v = False"

text \<open>
  The conversion of a value to a primitive, which the loose comparison performs on an
  object or array, can throw. A plain object converts through the inherited
  \<^verbatim>\<open>valueOf\<close>, which returns the object itself, and then through \<^verbatim>\<open>toString\<close>; when the
  object has an entry of its own under the key \<^verbatim>\<open>toString\<close> (data, so not callable), no
  method yields a primitive and the conversion throws a TypeError. An array converts by
  joining the conversions of its elements, so it throws when an element does.
\<close>

fun to_primitive_throws :: "json \<Rightarrow> bool" where
  "to_primitive_throws (JObj kvs) = (map_of kvs ''toString'' \<noteq> None)"
| "to_primitive_throws (JArr xs) = (\<exists>x \<in> set xs. to_primitive_throws x)"
| "to_primitive_throws v = False"

text \<open>Decimal digits of an array index, for the keys an array or string spreads into.\<close>

fun string_of_nat :: "nat \<Rightarrow> string" where
  "string_of_nat n =
     (if n < 10 then [char_of (48 + n)]
      else string_of_nat (n div 10) @ [char_of (48 + n mod 10)])"

declare string_of_nat.simps [simp del]

text \<open>
  The own enumerable properties copied by the object spread \<^verbatim>\<open>{...v}\<close>: an object's
  entries, the indexed elements of an array, the indexed characters of a string, and
  nothing for the other primitives.
\<close>

fun spread :: "json \<Rightarrow> (string \<times> json) list" where
  "spread (JObj kvs) = kvs"
| "spread (JArr xs) = map (\<lambda>i. (string_of_nat i, xs ! i)) [0..<length xs]"
| "spread (JStr s) = map (\<lambda>i. (string_of_nat i, JStr [s ! i])) [0..<length s]"
| "spread v = []"

text \<open>A later key of an object literal replaces an earlier entry in place, or is
  appended: \<^const>\<open>AList.update\<close>. (JavaScript lists keys that are array indices before
  the others; no property read depends on the order of the entries.)\<close>

definition obj_set :: "string \<Rightarrow> 'a \<Rightarrow> (string \<times> 'a) list \<Rightarrow> (string \<times> 'a) list" where
  "obj_set k v kvs = AList.update k v kvs"

section \<open>Errors\<close>

text \<open>
  Every \<^verbatim>\<open>throw new Error(...)\<close> of the two source files is one constructor; the
  runtime's TypeError and the failures of the collaborators, of the YAML parser and of
  the file system are the others. The messages thrown:
  \<^item> \<open>UnknownStateVersion\<close>: \<^verbatim>\<open>Unknown state version '1'\<close>
  \<^item> \<open>MissingHost\<close>: \<^verbatim>\<open>Missing host in state. Was instance fully provisioned ?\<close>
  \<^item> \<open>MissingSshConfig\<close>: \<^verbatim>\<open>Missing SSh config in state. Was instance fully provisioned ?\<close>
  \<^item> \<open>MissingProvisionArgs l\<close>: \<^verbatim>\<open>Missing l provision args in state. ...\<close>, \<open>l\<close> one of
    AWS, Azure, Google, Paperspace
  \<^item> \<open>MissingAwsInstanceId\<close>: \<^verbatim>\<open>Missing AWS instance ID in state. ...\<close>
  \<^item> \<open>MissingAzureVmName\<close>: \<^verbatim>\<open>Missing Azure VM Name in state. ...\<close>
  \<^item> \<open>MissingAzureResourceGroup\<close>: \<^verbatim>\<open>Missing Azure Resource Group in state. ...\<close>
  \<^item> \<open>MissingGcpInstanceName\<close>: \<^verbatim>\<open>Missing Google instance name in state. ...\<close>
  \<^item> \<open>MissingPaperspaceMachineId\<close>: \<^verbatim>\<open>Missing Paperspace machine ID in state. ...\<close>
  \<^item> \<open>MissingPaperspaceApiKey\<close>: \<^verbatim>\<open>Missing Paperspace api key in state. ...\<close>
  \<^item> \<open>UnknownProvider\<close>: \<^verbatim>\<open>Unknwon provider in state\<close>, followed by the JSON text of the
    provider object
  \<^item> \<open>NoDataRootDir\<close>: \<^verbatim>\<open>Neither CLOUDYPAD_HOME nor HOME environment variable is set. ...\<close>
  \<^item> \<open>InstanceDoesNotExist n\<close>: \<^verbatim>\<open>Instance named 'n' does not exist.\<close>
  \<^item> \<open>NoProvisionOutputForRunner n\<close>:
    \<^verbatim>\<open>Can't build Instance Runner for n: no provision output in state. ...\<close>
  \<^item> \<open>NoProvisionOutputForConfigurator\<close>:
    \<^verbatim>\<open>Missing common provision output. Was instance fully initialized ?\<close>
\<close>

datatype error =
    TypeError
  | UnknownStateVersion
  | MissingHost
  | MissingSshConfig
  | MissingProvisionArgs string
  | MissingAwsInstanceId
  | MissingAzureVmName
  | MissingAzureResourceGroup
  | MissingGcpInstanceName
  | MissingPaperspaceMachineId
  | MissingPaperspaceApiKey
  | UnknownProvider
  | NoDataRootDir
  | InstanceDoesNotExist string
  | FileNotFound string
  | YamlError string
  | NoProvisionOutputForRunner string
  | NoProvisionOutputForConfigurator
  | CollaboratorError string

section \<open>Provider names\<close>

definition CLOUDYPAD_PROVIDER_AWS :: string where
  "CLOUDYPAD_PROVIDER_AWS = ''aws''"

definition CLOUDYPAD_PROVIDER_PAPERSPACE :: string where
  "CLOUDYPAD_PROVIDER_PAPERSPACE = ''paperspace''"

text \<open>Modelled from the spec: \<^verbatim>\<open>state.ts\<close> imports \<^verbatim>\<open>CLOUDYPAD_PROVIDER_AZURE\<close> and
  \<^verbatim>\<open>CLOUDYPAD_PROVIDER_GCP\<close> from \<^verbatim>\<open>const.ts\<close>, whose available version declares only
  the two constants above; the values follow the keys of the legacy provider object.\<close>

definition CLOUDYPAD_PROVIDER_AZURE :: string where
  "CLOUDYPAD_PROVIDER_AZURE = ''azure''"

definition CLOUDYPAD_PROVIDER_GCP :: string where
  "CLOUDYPAD_PROVIDER_GCP = ''gcp''"

section \<open>The migration: \<^verbatim>\<open>ensureStateV1\<close>\<close>

text \<open>The \<^verbatim>\<open>ssh\<close> entry every migrated config ends with.\<close>

definition sshConfig :: "json \<Rightarrow> json" where
  "sshConfig stateV0 =
     JObj [(''user'', getprop (getprop stateV0 ''ssh'') ''user''),
           (''privateKeyPath'', getprop (getprop stateV0 ''ssh'') ''privateKeyPath'')]"

text \<open>The object literal each provider branch builds: \<^verbatim>\<open>name\<close>, \<^verbatim>\<open>version: "1"\<close>
  and \<^verbatim>\<open>provision: { provider, output, config }\<close>.\<close>

definition stateV1 :: "json \<Rightarrow> string \<Rightarrow> (string \<times> json) list \<Rightarrow> (string \<times> json) list \<Rightarrow> json" where
  "stateV1 nm providerName out config =
     JObj [(''name'', nm),
           (''version'', JStr ''1''),
           (''provision'',
              JObj [(''provider'', JStr providerName),
                    (''output'', JObj out),
                    (''config'', JObj config)])]"

text \<open>
  The four provider branches of the legacy transform, each with the checks it makes on
  its provider object (\<^verbatim>\<open>providerV0.aws\<close> and so on) and the state it builds.
  \<^verbatim>\<open>ensureStateV1\<close> below enters a branch only after the \<^verbatim>\<open>host\<close> and \<^verbatim>\<open>ssh\<close> checks.
\<close>

definition awsBranch :: "json \<Rightarrow> json \<Rightarrow> error + json" where
  "awsBranch stateV0 aws =
     (if \<not> truthy (getprop aws ''provisionArgs'')
         \<or> \<not> truthy (getprop (getprop aws ''provisionArgs'') ''create'')
        then Inl (MissingProvisionArgs ''AWS'')
      else if \<not> truthy (getprop aws ''instanceId'') then Inl MissingAwsInstanceId
      else Inr (stateV1 (getprop stateV0 ''name'') CLOUDYPAD_PROVIDER_AWS
             [(''host'', getprop stateV0 ''host''),
              (''instanceId'', getprop aws ''instanceId'')]
             (obj_set ''ssh'' (sshConfig stateV0)
                (spread (getprop (getprop aws ''provisionArgs'') ''create'')))))"

definition azureBranch :: "json \<Rightarrow> json \<Rightarrow> error + json" where
  "azureBranch stateV0 azure =
     (if \<not> truthy (getprop azure ''provisionArgs'')
         \<or> \<not> truthy (getprop (getprop azure ''provisionArgs'') ''create'')
        then Inl (MissingProvisionArgs ''Azure'')
      else if \<not> truthy (getprop azure ''vmName'') then Inl MissingAzureVmName
      else if \<not> truthy (getprop azure ''resourceGroupName'')
        then Inl MissingAzureResourceGroup
      else Inr (stateV1 (getprop stateV0 ''name'') CLOUDYPAD_PROVIDER_AZURE
             [(''host'', getprop stateV0 ''host''),
              (''resourceGroupName'', getprop azure ''resourceGroupName''),
              (''vmName'', getprop azure ''vmName'')]
             (obj_set ''ssh'' (sshConfig stateV0)
                (spread (getprop (getprop azure ''provisionArgs'') ''create'')))))"

definition gcpBranch :: "json \<Rightarrow> json \<Rightarrow> error + json" where
  "gcpBranch stateV0 gcp =
     (if \<not> truthy (getprop gcp ''provisionArgs'')
         \<or> \<not> truthy (getprop (getprop gcp ''provisionArgs'') ''create'')
        then Inl (MissingProvisionArgs ''Google'')
      else if \<not> truthy (getprop gcp ''instanceName'') then Inl MissingGcpInstanceName
      else Inr (stateV1 (getprop stateV0 ''name'') CLOUDYPAD_PROVIDER_GCP
             [(''host'', getprop stateV0 ''host''),
              (''instanceName'', getprop gcp ''instanceName'')]
             (obj_set ''ssh'' (sshConfig stateV0)
                (spread (getprop (getprop gcp ''provisionArgs'') ''create'')))))"

definition paperspaceBranch :: "json \<Rightarrow> json \<Rightarrow> error + json" where
  "paperspaceBranch stateV0 paperspace =
     (if \<not> truthy (getprop paperspace ''provisionArgs'')
         \<or> \<not> truthy (getprop (getprop paperspace ''provisionArgs'') ''create'')
        then Inl (MissingProvisionArgs ''Paperspace'')
      else if \<not> truthy (getprop paperspace ''machineId'')
        then Inl MissingPaperspaceMachineId
      else if \<not> truthy (getprop paperspace ''apiKey'')
            \<and> \<not> truthy (getprop (getprop paperspace ''provisionArgs'') ''apiKey'')
        then Inl MissingPaperspaceApiKey
      else Inr (stateV1 (getprop stateV0 ''name'') CLOUDYPAD_PROVIDER_PAPERSPACE
             [(''host'', getprop stateV0 ''host''),
              (''machineId'', getprop paperspace ''machineId'')]
             (obj_set ''ssh'' (sshConfig stateV0)
               (obj_set ''apiKey''
                  (coalesce (getprop paperspace ''apiKey'')
                     (getprop (getprop paperspace ''provisionArgs'') ''apiKey''))
                  (spread (getprop (getprop paperspace ''provisionArgs'') ''create''))))))"

text \<open>The transform of a document with no version (the \<^verbatim>\<open>else\<close> part of
  \<^verbatim>\<open>ensureStateV1\<close>). The message of the last error contains
  \<^verbatim>\<open>JSON.stringify(providerV0)\<close>, which throws on a value that contains itself; a
  document of type \<^typ>\<open>json\<close> is a finite tree and never does, so here the error is always
  the unknown-provider error. The heap-level transform below covers the other case.\<close>

definition transformV0 :: "json \<Rightarrow> error + json" where
  "transformV0 stateV0 =
     (let providerV0 = getprop stateV0 ''provider'' in
      if \<not> truthy (getprop stateV0 ''host'') then Inl MissingHost
      else if \<not> truthy (getprop stateV0 ''ssh'')
            \<or> \<not> truthy (getprop (getprop stateV0 ''ssh'') ''user'')
            \<or> \<not> truthy (getprop (getprop stateV0 ''ssh'') ''privateKeyPath'')
        then Inl MissingSshConfig
      else if truthy (optprop providerV0 ''aws'')
        then awsBranch stateV0 (optprop providerV0 ''aws'')
      else if truthy (optprop providerV0 ''azure'')
        then azureBranch stateV0 (optprop providerV0 ''azure'')
      else if truthy (optprop providerV0 ''gcp'')
        then gcpBranch stateV0 (optprop providerV0 ''gcp'')
      else if truthy (optprop providerV0 ''paperspace'')
        then paperspaceBranch stateV0 (optprop providerV0 ''paperspace'')
      else Inl UnknownProvider)"

definition ensureStateV1 :: "json \<Rightarrow> error + json" where
  "ensureStateV1 rawState =
     (if nullish rawState then Inl TypeError
      else if truthy (getprop rawState ''version'') then
        (if to_primitive_throws (getprop rawState ''version'') then Inl TypeError
         else if \<not> loose_eq_1 (getprop rawState ''version'') then Inl UnknownStateVersion
         else Inr rawState)
      else transformV0 rawState)"

section \<open>The state store: \<^verbatim>\<open>StateManager\<close>\<close>

text \<open>
  The file system as the store sees it: a path holds a directory, a file with its text
  (of a type \<open>'t\<close> left open), or nothing. \<^verbatim>\<open>path.join\<close> is concatenation with a separator (instance names are plain
  path segments); \<^verbatim>\<open>mkdirSync\<close>, \<^verbatim>\<open>writeFileSync\<close> and \<^verbatim>\<open>rmSync\<close> take effect as
  documented and do not fail, reading a path that holds no file does.
\<close>

datatype 't node = Dir | File 't

type_synonym 't filesystem = "string \<Rightarrow> 't node option"

text \<open>\<^verbatim>\<open>process.env\<close>: the two variables the store reads.\<close>

record environment =
  CLOUDYPAD_HOME :: "string option"
  HOME :: "string option"

text \<open>An environment variable is truthy when it is set to a non-empty string.\<close>

fun env_truthy :: "string option \<Rightarrow> bool" where
  "env_truthy None = False"
| "env_truthy (Some s) = (s \<noteq> [])"

definition getEnvironmentDataRootDir :: "environment \<Rightarrow> error + string" where
  "getEnvironmentDataRootDir e =
     (if env_truthy (CLOUDYPAD_HOME e) then Inr (the (CLOUDYPAD_HOME e))
      else if \<not> env_truthy (HOME e) then Inl NoDataRootDir
      else Inr (the (HOME e) @ ''/.cloudypad''))"

text \<open>A \<^verbatim>\<open>StateManager\<close> is its \<^verbatim>\<open>dataRootDir\<close>. The constructor takes the optional
  argument or falls back to the environment; \<^verbatim>\<open>StateManager.default()\<close> passes none.\<close>

definition StateManager_new :: "string option \<Rightarrow> environment \<Rightarrow> error + string" where
  "StateManager_new dataRootDir e =
     (case dataRootDir of Some d \<Rightarrow> Inr d | None \<Rightarrow> getEnvironmentDataRootDir e)"

definition StateManager_default :: "environment \<Rightarrow> error + string" where
  "StateManager_default e = StateManager_new None e"

definition getInstanceDir :: "string \<Rightarrow> string \<Rightarrow> string" where
  "getInstanceDir dataRootDir instanceName = dataRootDir @ ''/instances/'' @ instanceName"

definition getInstanceConfigPath :: "string \<Rightarrow> string \<Rightarrow> string" where
  "getInstanceConfigPath dataRootDir instanceName =
     getInstanceDir dataRootDir instanceName @ ''/config.yml''"

definition instanceExists :: "'t filesystem \<Rightarrow> string \<Rightarrow> string \<Rightarrow> bool" where
  "instanceExists files dataRootDir instanceName =
     (files (getInstanceDir dataRootDir instanceName) \<noteq> None)"

text \<open>\<^verbatim>\<open>yaml.load\<close> and \<^verbatim>\<open>yaml.dump\<close> belong to a library; they are parameters
  \<open>load\<close> and \<open>dump\<close> of the operations that call them. Their model follows the
  operations.\<close>

definition loadInstanceState ::
  "('t \<Rightarrow> error + json) \<Rightarrow> 't filesystem \<Rightarrow> string \<Rightarrow> string \<Rightarrow> error + json" where
  "loadInstanceState load files dataRootDir instanceName =
     (if \<not> instanceExists files dataRootDir instanceName
        then Inl (InstanceDoesNotExist instanceName)
      else
        (case files (getInstanceConfigPath dataRootDir instanceName) of
           Some (File text) \<Rightarrow>
             (case load text of
                Inl e \<Rightarrow> Inl e
              | Inr rawState \<Rightarrow> ensureStateV1 rawState)
         | _ \<Rightarrow> Inl (FileNotFound (getInstanceConfigPath dataRootDir instanceName))))"

definition ensureInstanceDirExists ::
  "'t filesystem \<Rightarrow> string \<Rightarrow> string \<Rightarrow> 't filesystem" where
  "ensureInstanceDirExists files dataRootDir instanceName =
     (if files (getInstanceDir dataRootDir instanceName) = None
        then files(getInstanceDir dataRootDir instanceName \<mapsto> Dir)
      else files)"

text \<open>\<^verbatim>\<open>persistState(state)\<close> reads \<^verbatim>\<open>state.name\<close> and hands it to \<^verbatim>\<open>path.join\<close>,
  which throws a TypeError on anything but a string.\<close>

definition StateManager_persistState ::
  "(json \<Rightarrow> 't) \<Rightarrow> 't filesystem \<Rightarrow> string \<Rightarrow> json \<Rightarrow> error + 't filesystem" where
  "StateManager_persistState dump files dataRootDir st =
     (case getprop st ''name'' of
        JStr instanceName \<Rightarrow>
          Inr ((ensureInstanceDirExists files dataRootDir instanceName)
                 (getInstanceConfigPath dataRootDir instanceName \<mapsto> File (dump st)))
      | _ \<Rightarrow> Inl TypeError)"

text \<open>\<^verbatim>\<open>fs.rmSync(confDir, { recursive: true, force: true })\<close>: the directory and
  everything below it go; a missing directory is no error.\<close>

definition removeInstanceDir :: "'t filesystem \<Rightarrow> string \<Rightarrow> string \<Rightarrow> 't filesystem" where
  "removeInstanceDir files dataRootDir instanceName =
     (\<lambda>p. if p = getInstanceDir dataRootDir instanceName
              \<or> prefix (getInstanceDir dataRootDir instanceName @ ''/'') p
           then None else files p)"

text \<open>Successive \<^verbatim>\<open>persistState\<close> calls on one store, stopping at the first that
  throws.\<close>

fun persistAll ::
  "(json \<Rightarrow> 't) \<Rightarrow> 't filesystem \<Rightarrow> string \<Rightarrow> json list \<Rightarrow> error + 't filesystem" where
  "persistAll dump files dataRootDir [] = Inr files"
| "persistAll dump files dataRootDir (st # sts) =
     (case StateManager_persistState dump files dataRootDir st of
        Inl e \<Rightarrow> Inl e
      | Inr files' \<Rightarrow> persistAll dump files' dataRootDir sts)"

subsection \<open>The YAML library on plain data\<close>

text \<open>
  \<^verbatim>\<open>js-yaml\<close> is not part of the repository. It is modelled by what it does on the plain
  data the store hands it, with a text standing for the document it denotes:
  \<^verbatim>\<open>yaml.dump\<close> leaves out the entries of an object whose value is \<^verbatim>\<open>undefined\<close>, writes
  \<^verbatim>\<open>null\<close> for an \<^verbatim>\<open>undefined\<close> element of an array, and writes every other value so
  that \<^verbatim>\<open>yaml.load\<close> reads it back (a string that looks like a number is quoted); keys
  keep their order. \<^verbatim>\<open>yaml.load\<close> throws on a text that denotes no document.
  The first function below gives the document that the dumped text of a value denotes.
\<close>

fun dumped :: "json \<Rightarrow> json"
  and dumped_entries :: "(string \<times> json) list \<Rightarrow> (string \<times> json) list"
  and dumped_elements :: "json list \<Rightarrow> json list" where
  "dumped (JObj kvs) = JObj (dumped_entries kvs)"
| "dumped (JArr xs) = JArr (dumped_elements xs)"
| "dumped v = v"
| "dumped_entries [] = []"
| "dumped_entries ((k, v) # kvs) =
     (if v = JUndefined then dumped_entries kvs else (k, dumped v) # dumped_entries kvs)"
| "dumped_elements [] = []"
| "dumped_elements (x # xs) = (if x = JUndefined then JNull else dumped x) # dumped_elements xs"

datatype yaml_text = YamlDocument json | YamlMalformed

definition yaml_dump :: "json \<Rightarrow> yaml_text" where
  "yaml_dump d = YamlDocument (dumped d)"

fun yaml_load :: "yaml_text \<Rightarrow> error + json" where
  "yaml_load (YamlDocument d) = Inr d"
| "yaml_load YamlMalformed = Inl (YamlError ''malformed'')"

section \<open>The lifecycle orchestrator: \<^verbatim>\<open>InstanceManager\<close>\<close>

text \<open>
  \<^verbatim>\<open>InstanceStateV1\<close> as \<^verbatim>\<open>manager.ts\<close> uses it: a name and
  \<^verbatim>\<open>provision: { provider, input, output? }\<close>, the version being the constant
  \<^verbatim>\<open>"1"\<close>. The provider-specific input and output are untyped values; an absent
  output is \<^const>\<open>JUndefined\<close>.
\<close>

record provision_state =
  provider :: string
  provision_input :: json
  provision_output :: json

record instance_state =
  name :: string
  provision :: provision_state

text \<open>The JavaScript object a typed state is at run time, which is what
  \<^verbatim>\<open>StateManager.persistState\<close> receives.\<close>

definition state_object :: "instance_state \<Rightarrow> json" where
  "state_object st =
     JObj [(''version'', JStr ''1''),
           (''name'', JStr (name st)),
           (''provision'',
              JObj [(''provider'', JStr (provider (provision st))),
                    (''input'', provision_input (provision st)),
                    (''output'', provision_output (provision st))])]"

text \<open>\<^verbatim>\<open>InstanceProvisionOptions\<close>; the orchestrator reads \<^verbatim>\<open>opts?.autoApprove\<close>
  only.\<close>

record provision_options =
  autoApprove :: "bool option"

text \<open>The collaborators, by what each call returns: a value or the error it throws.
  They act on cloud resources and on the instance's machine; they leave the state
  object the orchestrator holds and the instance's files as they are.\<close>

record provisioner =
  provisioner_provision :: "provision_options option \<Rightarrow> error + json"
  provisioner_destroy :: "provision_options option \<Rightarrow> error + unit"

record configurator =
  configurator_configure :: "error + unit"

record runner =
  runner_start :: "error + unit"
  runner_stop :: "error + unit"
  runner_restart :: "error + unit"
  runner_pair :: "error + unit"

text \<open>The per-provider part of \<^verbatim>\<open>AbstractSubManagerFactory\<close>: the three
  \<^verbatim>\<open>doBuild...\<close> methods, from name, input and output.\<close>

record factory =
  doBuildProvisioner :: "string \<Rightarrow> json \<Rightarrow> json \<Rightarrow> error + provisioner"
  doBuildRunner :: "string \<Rightarrow> json \<Rightarrow> json \<Rightarrow> error + runner"
  doBuildConfigurator :: "string \<Rightarrow> json \<Rightarrow> json \<Rightarrow> error + configurator"

definition buildProvisioner :: "factory \<Rightarrow> instance_state \<Rightarrow> error + provisioner" where
  "buildProvisioner fac st =
     doBuildProvisioner fac (name st) (provision_input (provision st)) (provision_output (provision st))"

definition buildRunner :: "factory \<Rightarrow> instance_state \<Rightarrow> error + runner" where
  "buildRunner fac st =
     (if \<not> truthy (provision_output (provision st)) then Inl (NoProvisionOutputForRunner (name st))
      else doBuildRunner fac (name st) (provision_input (provision st)) (provision_output (provision st)))"

definition buildConfigurator :: "factory \<Rightarrow> instance_state \<Rightarrow> error + configurator" where
  "buildConfigurator fac st =
     (if \<not> truthy (provision_output (provision st)) then Inl NoProvisionOutputForConfigurator
      else doBuildConfigurator fac (name st) (provision_input (provision st)) (provision_output (provision st)))"

text \<open>
  What an orchestrator operation can change: the state object it holds
  (\<^verbatim>\<open>this.state\<close>) and the file system. The environment is read only. The trace lists,
  in order, the calls made to the collaborators and to the store.
\<close>

datatype event =
    EvProvision "provision_options option"
  | EvDestroy "provision_options option"
  | EvConfigure
  | EvStart
  | EvStop
  | EvRestart
  | EvPair
  | EvConfirm
  | EvPersist json
  | EvRemoveInstanceDir string

record 't world =
  this_state :: instance_state
  files :: "'t filesystem"
  environ :: environment
  trace :: "event list"

text \<open>An operation returns a value or throws, and leaves a world behind either way.\<close>

type_synonym ('t, 'a) action = "'t world \<Rightarrow> (error + 'a) \<times> 't world"

text \<open>Sequencing of two awaited steps: an error of the first skips the second.\<close>

definition andThen :: "('t, 'a) action \<Rightarrow> ('a \<Rightarrow> ('t, 'b) action) \<Rightarrow> ('t, 'b) action" where
  "andThen m f w = (case m w of (Inl e, w') \<Rightarrow> (Inl e, w') | (Inr a, w') \<Rightarrow> f a w')"

text \<open>A call to a collaborator: it is recorded, and resolves or throws.\<close>

definition await :: "event \<Rightarrow> error + 'a \<Rightarrow> ('t, 'a) action" where
  "await ev r w = (r, w\<lparr>trace := trace w @ [ev]\<rparr>)"

text \<open>A factory call on \<^verbatim>\<open>this.state\<close>.\<close>

definition build :: "(instance_state \<Rightarrow> error + 'a) \<Rightarrow> ('t, 'a) action" where
  "build f w = (f (this_state w), w)"

text \<open>The assignment \<^verbatim>\<open>this.state.provision.output = v\<close>.\<close>

definition set_output :: "json \<Rightarrow> ('t, unit) action" where
  "set_output v w =
     (Inr (), w\<lparr>this_state := (this_state w)\<lparr>provision := (provision (this_state w))\<lparr>provision_output := v\<rparr>\<rparr>\<rparr>)"

definition InstanceManager_persistState :: "(json \<Rightarrow> 't) \<Rightarrow> ('t, unit) action" where
  "InstanceManager_persistState dump w =
     (case StateManager_default (environ w) of
        Inl e \<Rightarrow> (Inl e, w)
      | Inr dataRootDir \<Rightarrow>
          (case StateManager_persistState dump (files w) dataRootDir (state_object (this_state w)) of
             Inl e \<Rightarrow> (Inl e, w)
           | Inr files' \<Rightarrow>
               (Inr (), w\<lparr>files := files',
                          trace := trace w @ [EvPersist (state_object (this_state w))]\<rparr>)))"

definition InstanceManager_removeInstanceDir :: "('t, unit) action" where
  "InstanceManager_removeInstanceDir w =
     (case StateManager_default (environ w) of
        Inl e \<Rightarrow> (Inl e, w)
      | Inr dataRootDir \<Rightarrow>
          (Inr (), w\<lparr>files := removeInstanceDir (files w) dataRootDir (name (this_state w)),
                     trace := trace w @ [EvRemoveInstanceDir (name (this_state w))]\<rparr>))"

definition InstanceManager_configure :: "(json \<Rightarrow> 't) \<Rightarrow> factory \<Rightarrow> ('t, unit) action" where
  "InstanceManager_configure dump fac =
     andThen (build (buildConfigurator fac)) (\<lambda>configurator.
     andThen (await EvConfigure (configurator_configure configurator)) (\<lambda>_.
     InstanceManager_persistState dump))"

definition InstanceManager_provision ::
  "(json \<Rightarrow> 't) \<Rightarrow> factory \<Rightarrow> provision_options option \<Rightarrow> ('t, unit) action" where
  "InstanceManager_provision dump fac opts =
     andThen (build (buildProvisioner fac)) (\<lambda>provisioner.
     andThen (await (EvProvision opts) (provisioner_provision provisioner opts)) (\<lambda>out.
     andThen (set_output out) (\<lambda>_.
     InstanceManager_persistState dump)))"

definition InstanceManager_destroy ::
  "(json \<Rightarrow> 't) \<Rightarrow> factory \<Rightarrow> provision_options option \<Rightarrow> ('t, unit) action" where
  "InstanceManager_destroy dump fac opts =
     andThen (build (buildProvisioner fac)) (\<lambda>provisioner.
     andThen (await (EvDestroy opts) (provisioner_destroy provisioner opts)) (\<lambda>_.
     andThen (set_output JUndefined) (\<lambda>_.
     andThen (InstanceManager_persistState dump) (\<lambda>_.
     InstanceManager_removeInstanceDir))))"

definition InstanceManager_start :: "(json \<Rightarrow> 't) \<Rightarrow> factory \<Rightarrow> ('t, unit) action" where
  "InstanceManager_start dump fac =
     andThen (build (buildRunner fac)) (\<lambda>runner.
     andThen (await EvStart (runner_start runner)) (\<lambda>_.
     InstanceManager_persistState dump))"

definition InstanceManager_stop :: "(json \<Rightarrow> 't) \<Rightarrow> factory \<Rightarrow> ('t, unit) action" where
  "InstanceManager_stop dump fac =
     andThen (build (buildRunner fac)) (\<lambda>runner.
     andThen (await EvStop (runner_stop runner)) (\<lambda>_.
     InstanceManager_persistState dump))"

definition InstanceManager_restart :: "(json \<Rightarrow> 't) \<Rightarrow> factory \<Rightarrow> ('t, unit) action" where
  "InstanceManager_restart dump fac =
     andThen (build (buildRunner fac)) (\<lambda>runner.
     andThen (await EvRestart (runner_restart runner)) (\<lambda>_.
     InstanceManager_persistState dump))"

definition InstanceManager_pair :: "(json \<Rightarrow> 't) \<Rightarrow> factory \<Rightarrow> ('t, unit) action" where
  "InstanceManager_pair dump fac =
     andThen (build (buildRunner fac)) (\<lambda>runner.
     andThen (await EvPair (runner_pair runner)) (\<lambda>_.
     InstanceManager_persistState dump))"

text \<open>\<^verbatim>\<open>opts?.autoApprove\<close> as a condition.\<close>

definition autoApproved :: "provision_options option \<Rightarrow> bool" where
  "autoApproved opts = (case opts of None \<Rightarrow> False | Some v \<Rightarrow> autoApprove v = Some True)"

text \<open>\<^verbatim>\<open>initialize(opts)\<close>; \<open>answer\<close> is what the \<^verbatim>\<open>confirm\<close> prompt resolves to, or
  the error it throws.\<close>

definition InstanceManager_initialize ::
  "(json \<Rightarrow> 't) \<Rightarrow> factory \<Rightarrow> error + bool \<Rightarrow> provision_options option \<Rightarrow> ('t, unit) action" where
  "InstanceManager_initialize dump fac answer opts =
     andThen (InstanceManager_provision dump fac opts) (\<lambda>_.
     andThen (InstanceManager_configure dump fac) (\<lambda>_.
     andThen (if autoApproved opts then (\<lambda>w. (Inr True, w)) else await EvConfirm answer) (\<lambda>doPair.
     if doPair then InstanceManager_pair dump fac else (\<lambda>w. (Inr (), w)))))"

section \<open>The migration on a heap of objects\<close>

text \<open>
  Whether \<^verbatim>\<open>ensureStateV1\<close> mutates the document it is given is a question about
  objects that are shared by reference, so the function is embedded a second time over
  an explicit store: an object or array lives at an address, a value is a primitive or
  a reference, and an object literal allocates at the next free address. The function
  is the one above, read and allocation made explicit.
\<close>

datatype hval =
    HUndefined
  | HNull
  | HBool bool
  | HNum int
  | HStr string
  | HRef nat

datatype hobj = HObject "(string \<times> hval) list" | HArray "hval list"

type_synonym heap = "hobj list"

fun h_truthy :: "hval \<Rightarrow> bool" where
  "h_truthy HUndefined = False"
| "h_truthy HNull = False"
| "h_truthy (HBool b) = b"
| "h_truthy (HNum n) = (n \<noteq> 0)"
| "h_truthy (HStr s) = (s \<noteq> [])"
| "h_truthy (HRef a) = True"

fun h_nullish :: "hval \<Rightarrow> bool" where
  "h_nullish HUndefined = True"
| "h_nullish HNull = True"
| "h_nullish v = False"

text \<open>The object or array a value refers to, if it refers to one.\<close>

fun deref :: "heap \<Rightarrow> hval \<Rightarrow> hobj option" where
  "deref h (HRef a) = (if a < length h then Some (h ! a) else None)"
| "deref h v = None"

definition h_getprop :: "heap \<Rightarrow> hval \<Rightarrow> string \<Rightarrow> hval" where
  "h_getprop h v k =
     (case deref h v of
        Some (HObject kvs) \<Rightarrow> (case map_of kvs k of None \<Rightarrow> HUndefined | Some x \<Rightarrow> x)
      | _ \<Rightarrow> HUndefined)"

definition h_optprop :: "heap \<Rightarrow> hval \<Rightarrow> string \<Rightarrow> hval" where
  "h_optprop h v k = (if h_nullish v then HUndefined else h_getprop h v k)"

definition h_coalesce :: "hval \<Rightarrow> hval \<Rightarrow> hval" where
  "h_coalesce a b = (if h_nullish a then b else a)"

text \<open>\<^verbatim>\<open>String(v) === "1"\<close> on the heap, as the least relation: an array that contains
  itself does not convert to \<^verbatim>\<open>"1"\<close>.\<close>

inductive h_string_is_1 :: "heap \<Rightarrow> hval \<Rightarrow> bool" for h :: heap where
  str: "h_string_is_1 h (HStr ''1'')"
| num: "h_string_is_1 h (HNum 1)"
| arr: "deref h v = Some (HArray [x]) \<Longrightarrow> h_string_is_1 h x \<Longrightarrow> h_string_is_1 h v"

code_pred h_string_is_1 .

definition h_loose_eq_1 :: "heap \<Rightarrow> hval \<Rightarrow> bool" where
  "h_loose_eq_1 h v =
     (case v of
        HStr s \<Rightarrow> s = ''1''
      | HNum n \<Rightarrow> n = 1
      | HBool b \<Rightarrow> b
      | HRef a \<Rightarrow> h_string_is_1 h v
      | _ \<Rightarrow> False)"

text \<open>The conversion to a primitive throws, on the heap: an object with an entry of
  its own under \<^verbatim>\<open>toString\<close>, or an array with an element whose conversion throws (an
  array met again while it is being joined converts to the empty string).\<close>

inductive h_to_primitive_throws :: "heap \<Rightarrow> hval \<Rightarrow> bool" for h :: heap where
  obj: "deref h v = Some (HObject kvs) \<Longrightarrow> map_of kvs ''toString'' \<noteq> None \<Longrightarrow>
        h_to_primitive_throws h v"
| arr: "deref h v = Some (HArray xs) \<Longrightarrow> x \<in> set xs \<Longrightarrow> h_to_primitive_throws h x \<Longrightarrow>
        h_to_primitive_throws h v"

code_pred h_to_primitive_throws .

text \<open>The values held directly by the object or array a value refers to.\<close>

definition children :: "heap \<Rightarrow> hval \<Rightarrow> hval list" where
  "children h v =
     (case deref h v of
        Some (HObject kvs) \<Rightarrow> map snd kvs
      | Some (HArray xs) \<Rightarrow> xs
      | None \<Rightarrow> [])"

text \<open>A value is reached from another in one or more steps.\<close>

inductive reaches :: "heap \<Rightarrow> hval \<Rightarrow> hval \<Rightarrow> bool" for h :: heap where
  child: "x \<in> set (children h v) \<Longrightarrow> reaches h v x"
| step: "x \<in> set (children h v) \<Longrightarrow> reaches h x y \<Longrightarrow> reaches h v y"

text \<open>\<^verbatim>\<open>JSON.stringify(v)\<close> throws a TypeError on a circular structure: it walks every
  entry and element, and finds an object or array inside itself.\<close>

inductive circular :: "heap \<Rightarrow> hval \<Rightarrow> bool" for h :: heap where
  self: "reaches h v v \<Longrightarrow> circular h v"
| below: "x \<in> set (children h v) \<Longrightarrow> circular h x \<Longrightarrow> circular h v"

code_pred reaches .

code_pred circular .

definition h_spread :: "heap \<Rightarrow> hval \<Rightarrow> (string \<times> hval) list" where
  "h_spread h v =
     (case v of
        HStr s \<Rightarrow> map (\<lambda>i. (string_of_nat i, HStr [s ! i])) [0..<length s]
      | _ \<Rightarrow>
        (case deref h v of
           Some (HObject kvs) \<Rightarrow> kvs
         | Some (HArray xs) \<Rightarrow> map (\<lambda>i. (string_of_nat i, xs ! i)) [0..<length xs]
         | None \<Rightarrow> []))"

text \<open>Allocation of a fresh object: the next address, and the heap with the object
  added. No other operation of this section changes the heap.\<close>

definition alloc :: "heap \<Rightarrow> hobj \<Rightarrow> hval \<times> heap" where
  "alloc h ob = (HRef (length h), h @ [ob])"

definition h_stateV1 ::
  "heap \<Rightarrow> hval \<Rightarrow> string \<Rightarrow> (string \<times> hval) list \<Rightarrow> (string \<times> hval) list \<Rightarrow> hval \<times> heap" where
  "h_stateV1 h nm providerName out config =
     (let (outRef, h1) = alloc h (HObject out);
          (configRef, h2) = alloc h1 (HObject config);
          (provisionRef, h3) =
             alloc h2 (HObject [(''provider'', HStr providerName),
                                (''output'', outRef),
                                (''config'', configRef)])
      in alloc h3 (HObject [(''name'', nm),
                            (''version'', HStr ''1''),
                            (''provision'', provisionRef)]))"

definition h_sshConfig :: "heap \<Rightarrow> hval \<Rightarrow> hval \<times> heap" where
  "h_sshConfig h stateV0 =
     alloc h (HObject
       [(''user'', h_getprop h (h_getprop h stateV0 ''ssh'') ''user''),
        (''privateKeyPath'', h_getprop h (h_getprop h stateV0 ''ssh'') ''privateKeyPath'')])"

definition h_awsBranch :: "heap \<Rightarrow> hval \<Rightarrow> hval \<Rightarrow> error + hval \<times> heap" where
  "h_awsBranch h stateV0 aws =
     (if \<not> h_truthy (h_getprop h aws ''provisionArgs'')
         \<or> \<not> h_truthy (h_getprop h (h_getprop h aws ''provisionArgs'') ''create'')
        then Inl (MissingProvisionArgs ''AWS'')
      else if \<not> h_truthy (h_getprop h aws ''instanceId'') then Inl MissingAwsInstanceId
      else
        (let (ssh, h1) = h_sshConfig h stateV0 in
         Inr (h_stateV1 h1 (h_getprop h stateV0 ''name'') CLOUDYPAD_PROVIDER_AWS
                [(''host'', h_getprop h stateV0 ''host''),
                 (''instanceId'', h_getprop h aws ''instanceId'')]
                (obj_set ''ssh'' ssh
                   (h_spread h (h_getprop h (h_getprop h aws ''provisionArgs'') ''create''))))))"

definition h_azureBranch :: "heap \<Rightarrow> hval \<Rightarrow> hval \<Rightarrow> error + hval \<times> heap" where
  "h_azureBranch h stateV0 azure =
     (if \<not> h_truthy (h_getprop h azure ''provisionArgs'')
         \<or> \<not> h_truthy (h_getprop h (h_getprop h azure ''provisionArgs'') ''create'')
        then Inl (MissingProvisionArgs ''Azure'')
      else if \<not> h_truthy (h_getprop h azure ''vmName'') then Inl MissingAzureVmName
      else if \<not> h_truthy (h_getprop h azure ''resourceGroupName'')
        then Inl MissingAzureResourceGroup
      else
        (let (ssh, h1) = h_sshConfig h stateV0 in
         Inr (h_stateV1 h1 (h_getprop h stateV0 ''name'') CLOUDYPAD_PROVIDER_AZURE
                [(''host'', h_getprop h stateV0 ''host''),
                 (''resourceGroupName'', h_getprop h azure ''resourceGroupName''),
                 (''vmName'', h_getprop h azure ''vmName'')]
                (obj_set ''ssh'' ssh
                   (h_spread h (h_getprop h (h_getprop h azure ''provisionArgs'') ''create''))))))"

definition h_gcpBranch :: "heap \<Rightarrow> hval \<Rightarrow> hval \<Rightarrow> error + hval \<times> heap" where
  "h_gcpBranch h stateV0 gcp =
     (if \<not> h_truthy (h_getprop h gcp ''provisionArgs'')
         \<or> \<not> h_truthy (h_getprop h (h_getprop h gcp ''provisionArgs'') ''create'')
        then Inl (MissingProvisionArgs ''Google'')
      else if \<not> h_truthy (h_getprop h gcp ''instanceName'') then Inl MissingGcpInstanceName
      else
        (let (ssh, h1) = h_sshConfig h stateV0 in
         Inr (h_stateV1 h1 (h_getprop h stateV0 ''name'') CLOUDYPAD_PROVIDER_GCP
                [(''host'', h_getprop h stateV0 ''host''),
                 (''instanceName'', h_getprop h gcp ''instanceName'')]
                (obj_set ''ssh'' ssh
                   (h_spread h (h_getprop h (h_getprop h gcp ''provisionArgs'') ''create''))))))"

definition h_paperspaceBranch :: "heap \<Rightarrow> hval \<Rightarrow> hval \<Rightarrow> error + hval \<times> heap" where
  "h_paperspaceBranch h stateV0 paperspace =
     (if \<not> h_truthy (h_getprop h paperspace ''provisionArgs'')
         \<or> \<not> h_truthy (h_getprop h (h_getprop h paperspace ''provisionArgs'') ''create'')
        then Inl (MissingProvisionArgs ''Paperspace'')
      else if \<not> h_truthy (h_getprop h paperspace ''machineId'')
        then Inl MissingPaperspaceMachineId
      else if \<not> h_truthy (h_getprop h paperspace ''apiKey'')
            \<and> \<not> h_truthy (h_getprop h (h_getprop h paperspace ''provisionArgs'') ''apiKey'')
        then Inl MissingPaperspaceApiKey
      else
        (let (ssh, h1) = h_sshConfig h stateV0 in
         Inr (h_stateV1 h1 (h_getprop h stateV0 ''name'') CLOUDYPAD_PROVIDER_PAPERSPACE
                [(''host'', h_getprop h stateV0 ''host''),
                 (''machineId'', h_getprop h paperspace ''machineId'')]
                (obj_set ''ssh'' ssh
                  (obj_set ''apiKey''
                     (h_coalesce (h_getprop h paperspace ''apiKey'')
                        (h_getprop h (h_getprop h paperspace ''provisionArgs'') ''apiKey''))
                     (h_spread h
                        (h_getprop h (h_getprop h paperspace ''provisionArgs'') ''create'')))))))"

definition h_transformV0 :: "heap \<Rightarrow> hval \<Rightarrow> error + hval \<times> heap" where
  "h_transformV0 h stateV0 =
     (let providerV0 = h_getprop h stateV0 ''provider'' in
      if \<not> h_truthy (h_getprop h stateV0 ''host'') then Inl MissingHost
      else if \<not> h_truthy (h_getprop h stateV0 ''ssh'')
            \<or> \<not> h_truthy (h_getprop h (h_getprop h stateV0 ''ssh'') ''user'')
            \<or> \<not> h_truthy (h_getprop h (h_getprop h stateV0 ''ssh'') ''privateKeyPath'')
        then Inl MissingSshConfig
      else if h_truthy (h_optprop h providerV0 ''aws'')
        then h_awsBranch h stateV0 (h_optprop h providerV0 ''aws'')
      else if h_truthy (h_optprop h providerV0 ''azure'')
        then h_azureBranch h stateV0 (h_optprop h providerV0 ''azure'')
      else if h_truthy (h_optprop h providerV0 ''gcp'')
        then h_gcpBranch h stateV0 (h_optprop h providerV0 ''gcp'')
      else if h_truthy (h_optprop h providerV0 ''paperspace'')
        then h_paperspaceBranch h stateV0 (h_optprop h providerV0 ''paperspace'')
      else if circular h providerV0 then Inl TypeError
      else Inl UnknownProvider)"

text \<open>The result is the returned value and the heap after the call; a throw allocates
  nothing that is reachable and returns the error alone.\<close>

definition h_ensureStateV1 :: "heap \<Rightarrow> hval \<Rightarrow> error + hval \<times> heap" where
  "h_ensureStateV1 h rawState =
     (if h_nullish rawState then Inl TypeError
      else if h_truthy (h_getprop h rawState ''version'') then
        (if h_to_primitive_throws h (h_getprop h rawState ''version'') then Inl TypeError
         else if \<not> h_loose_eq_1 h (h_getprop h rawState ''version'') then Inl UnknownStateVersion
         else Inr (rawState, h))
      else h_transformV0 h rawState)"

text \<open>
  A heap value and the document it stands for: primitives for themselves, a reference
  for the object or array it leads to, entry by entry. A value that reaches itself
  stands for no document.
\<close>

inductive repr :: "heap \<Rightarrow> hval \<Rightarrow> json \<Rightarrow> bool" for h :: heap where
  undefined: "repr h HUndefined JUndefined"
| null: "repr h HNull JNull"
| bool: "repr h (HBool b) (JBool b)"
| num: "repr h (HNum n) (JNum n)"
| str: "repr h (HStr s) (JStr s)"
| arr: "deref h v = Some (HArray xs) \<Longrightarrow> list_all2 (repr h) xs js \<Longrightarrow> repr h v (JArr js)"
| obj: "deref h v = Some (HObject kvs) \<Longrightarrow> map fst kvs = map fst jkvs \<Longrightarrow>
        list_all2 (repr h) (map snd kvs) (map snd jkvs) \<Longrightarrow> repr h v (JObj jkvs)"

section \<open>Vocabulary of the properties\<close>

text \<open>The legacy provider sub-object \<^verbatim>\<open>provider.p\<close> of a document, read as the
  transform reads it.\<close>

definition providerObject :: "json \<Rightarrow> string \<Rightarrow> json" where
  "providerObject d p = optprop (getprop d ''provider'') p"

text \<open>The recognized providers a document populates, in the order the transform tests
  them.\<close>

definition populatedProviders :: "json \<Rightarrow> string list" where
  "populatedProviders d =
     filter (\<lambda>p. truthy (providerObject d p)) [''aws'', ''azure'', ''gcp'', ''paperspace'']"

definition sshPresent :: "json \<Rightarrow> bool" where
  "sshPresent d =
     (truthy (getprop d ''ssh'') \<and> truthy (getprop (getprop d ''ssh'') ''user'')
      \<and> truthy (getprop (getprop d ''ssh'') ''privateKeyPath''))"

definition provisionArgsPresent :: "json \<Rightarrow> string \<Rightarrow> bool" where
  "provisionArgsPresent d p =
     (truthy (getprop (providerObject d p) ''provisionArgs'')
      \<and> truthy (getprop (getprop (providerObject d p) ''provisionArgs'') ''create''))"

text \<open>The legacy fields of a provider that become fields of the V1 output next to
  \<^verbatim>\<open>host\<close>, in the order of the output.\<close>

fun identifyingFields :: "string \<Rightarrow> string list" where
  "identifyingFields p =
     (if p = ''aws'' then [''instanceId'']
      else if p = ''azure'' then [''resourceGroupName'', ''vmName'']
      else if p = ''gcp'' then [''instanceName'']
      else if p = ''paperspace'' then [''machineId'']
      else [])"

definition apiKeyPresent :: "json \<Rightarrow> bool" where
  "apiKeyPresent d =
     (truthy (getprop (providerObject d ''paperspace'') ''apiKey'')
      \<or> truthy (getprop (getprop (providerObject d ''paperspace'') ''provisionArgs'') ''apiKey''))"

text \<open>Everything the transform requires of a legacy document for provider \<open>p\<close>.\<close>

definition requiredLegacyFields :: "json \<Rightarrow> string \<Rightarrow> bool" where
  "requiredLegacyFields d p =
     (truthy (getprop d ''host'') \<and> sshPresent d \<and> provisionArgsPresent d p
      \<and> list_all (\<lambda>f. truthy (getprop (providerObject d p) f)) (identifyingFields p)
      \<and> (if p = ''paperspace'' then apiKeyPresent d else True))"

text \<open>The fields the claim on legacy documents lists as required: the same without the
  Paperspace API key.\<close>

definition listedLegacyFields :: "json \<Rightarrow> string \<Rightarrow> bool" where
  "listedLegacyFields d p =
     (truthy (getprop d ''host'') \<and> sshPresent d \<and> provisionArgsPresent d p
      \<and> list_all (\<lambda>f. truthy (getprop (providerObject d p) f)) (identifyingFields p))"

text \<open>The provider's name in the text of the error on its provision arguments.\<close>

fun providerLabel :: "string \<Rightarrow> string" where
  "providerLabel p =
     (if p = ''aws'' then ''AWS''
      else if p = ''azure'' then ''Azure''
      else if p = ''gcp'' then ''Google''
      else ''Paperspace'')"

text \<open>An error of the transform names a field of the legacy document, for provider
  \<open>p\<close>, that is indeed missing.\<close>

definition namesMissingField :: "json \<Rightarrow> string \<Rightarrow> error \<Rightarrow> bool" where
  "namesMissingField d p e =
     (case e of
        MissingHost \<Rightarrow> \<not> truthy (getprop d ''host'')
      | MissingSshConfig \<Rightarrow> \<not> sshPresent d
      | MissingProvisionArgs l \<Rightarrow> l = providerLabel p \<and> \<not> provisionArgsPresent d p
      | MissingAwsInstanceId \<Rightarrow>
          p = ''aws'' \<and> \<not> truthy (getprop (providerObject d p) ''instanceId'')
      | MissingAzureVmName \<Rightarrow>
          p = ''azure'' \<and> \<not> truthy (getprop (providerObject d p) ''vmName'')
      | MissingAzureResourceGroup \<Rightarrow>
          p = ''azure'' \<and> \<not> truthy (getprop (providerObject d p) ''resourceGroupName'')
      | MissingGcpInstanceName \<Rightarrow>
          p = ''gcp'' \<and> \<not> truthy (getprop (providerObject d p) ''instanceName'')
      | MissingPaperspaceMachineId \<Rightarrow>
          p = ''paperspace'' \<and> \<not> truthy (getprop (providerObject d p) ''machineId'')
      | MissingPaperspaceApiKey \<Rightarrow> p = ''paperspace'' \<and> \<not> apiKeyPresent d
      | _ \<Rightarrow> False)"






text \<open>A document holds an \<^verbatim>\<open>undefined\<close> value: some entry of an object or element of an
  array inside it, at any depth, is \<^verbatim>\<open>undefined\<close>.\<close>

fun holds_undefined :: "json \<Rightarrow> bool"
  and entries_hold_undefined :: "(string \<times> json) list \<Rightarrow> bool"
  and elements_hold_undefined :: "json list \<Rightarrow> bool" where
  "holds_undefined (JObj kvs) = entries_hold_undefined kvs"
| "holds_undefined (JArr xs) = elements_hold_undefined xs"
| "holds_undefined v = False"
| "entries_hold_undefined [] = False"
| "entries_hold_undefined ((k, v) # kvs) =
     (v = JUndefined \<or> holds_undefined v \<or> entries_hold_undefined kvs)"
| "elements_hold_undefined [] = False"
| "elements_hold_undefined (x # xs) =
     (x = JUndefined \<or> holds_undefined x \<or> elements_hold_undefined xs)"

text \<open>\<^verbatim>\<open>provision.config.apiKey\<close> of a migrated state.\<close>

definition configApiKey :: "json \<Rightarrow> json" where
  "configApiKey s = getprop (getprop (getprop s ''provision'') ''config'') ''apiKey''"

text \<open>A result of the heap-level transform that, when it is a value, keeps every object
  of the heap \<open>h\<close> it started from as it was and is an object whose version is the
  string \<^verbatim>\<open>"1"\<close>.\<close>

definition extends_to_current :: "heap \<Rightarrow> error + hval \<times> heap \<Rightarrow> bool" where
  "extends_to_current h r =
     (case r of
        Inl e \<Rightarrow> True
      | Inr (v, h') \<Rightarrow>
          prefix h h' \<and> \<not> h_nullish v \<and> h_getprop h' v ''version'' = HStr ''1'')"

text \<open>The entries of a heap object stand for the entries of a document object: the
  same keys in the same order, value for value.\<close>

definition entries_repr :: "heap \<Rightarrow> (string \<times> hval) list \<Rightarrow> (string \<times> json) list \<Rightarrow> bool" where
  "entries_repr h kvs jkvs =
     (map fst kvs = map fst jkvs \<and> list_all2 (repr h) (map snd kvs) (map snd jkvs))"

text \<open>A heap-level result stands for a document-level result: the same error, or a
  value that in the heap after the call stands for the document returned.\<close>

definition simulates :: "error + hval \<times> heap \<Rightarrow> error + json \<Rightarrow> bool" where
  "simulates r jr =
     (case r of
        Inl e \<Rightarrow> jr = Inl e
      | Inr (v, h') \<Rightarrow> (case jr of Inl e \<Rightarrow> False | Inr s \<Rightarrow> repr h' v s))"

section \<open>Example inputs\<close>

text \<open>A legacy document with the given provider sub-objects; name, host and SSH fields
  are present.\<close>

definition legacy_document :: "(string \<times> json) list \<Rightarrow> json" where
  "legacy_document providers =
     JObj [(''name'', JStr ''x''),
           (''provider'', JObj providers),
           (''host'', JStr ''h''),
           (''ssh'', JObj [(''user'', JStr ''u''), (''privateKeyPath'', JStr ''/k'')])]"

definition aws_complete :: json where
  "aws_complete =
     JObj [(''instanceId'', JStr ''i-9''),
           (''provisionArgs'', JObj [(''create'', JObj [(''instanceType'', JStr ''g4dn.xlarge'')])])]"

text \<open>A legacy Paperspace provider object with machine id and creation arguments; the
  two parameters are the entries for an API key at provider level and inside
  \<^verbatim>\<open>provisionArgs\<close>.\<close>

definition paperspace_provider :: "(string \<times> json) list \<Rightarrow> (string \<times> json) list \<Rightarrow> json" where
  "paperspace_provider key argsKey =
     JObj ([(''machineId'', JStr ''m-1'')] @ key @
           [(''provisionArgs'',
               JObj ([(''create'', JObj [(''machineType'', JStr ''P4000'')])] @ argsKey))])"

text \<open>A document that has a name and an empty provider object and nothing else.\<close>

definition bare_document :: json where
  "bare_document = JObj [(''name'', JStr ''x''), (''provider'', JObj [])]"

text \<open>The legacy AWS document on a heap: the document at address 0, its provider object
  at 1, the AWS object at 2, its provision arguments at 3, the SSH object at 4 and the
  creation arguments at 5.\<close>

definition legacy_heap :: heap where
  "legacy_heap =
     [HObject [(''name'', HStr ''x''), (''provider'', HRef 1), (''host'', HStr ''h''),
               (''ssh'', HRef 4)],
      HObject [(''aws'', HRef 2)],
      HObject [(''instanceId'', HStr ''i-9''), (''provisionArgs'', HRef 3)],
      HObject [(''create'', HRef 5)],
      HObject [(''user'', HStr ''u''), (''privateKeyPath'', HStr ''/k'')],
      HObject [(''instanceType'', HStr ''g4dn.xlarge'')]]"



text \<open>An unprovisioned instance, the output a provisioner returns for it, and
  collaborators that all succeed.\<close>

definition example_state :: instance_state where
  "example_state =
     \<lparr>name = ''box1'',
      provision = \<lparr>provider = ''aws'',
                   provision_input = JObj [(''instanceType'', JStr ''g4dn.xlarge'')],
                   provision_output = JUndefined\<rparr>\<rparr>"

definition example_output :: json where
  "example_output = JObj [(''host'', JStr ''1.2.3.4''), (''instanceId'', JStr ''i-1'')]"

definition example_provisioned :: instance_state where
  "example_provisioned =
     example_state\<lparr>provision := (provision example_state)\<lparr>provision_output := example_output\<rparr>\<rparr>"

definition example_provisioner :: provisioner where
  "example_provisioner =
     \<lparr>provisioner_provision = (\<lambda>opts. Inr example_output),
      provisioner_destroy = (\<lambda>opts. Inr ())\<rparr>"

definition failing_provisioner :: provisioner where
  "failing_provisioner =
     \<lparr>provisioner_provision = (\<lambda>opts. Inl (CollaboratorError ''quota exceeded'')),
      provisioner_destroy = (\<lambda>opts. Inr ())\<rparr>"

definition example_runner :: runner where
  "example_runner =
     \<lparr>runner_start = Inr (), runner_stop = Inr (), runner_restart = Inr (),
      runner_pair = Inr ()\<rparr>"

definition example_factory :: factory where
  "example_factory =
     \<lparr>doBuildProvisioner = (\<lambda>n i out. Inr example_provisioner),
      doBuildRunner = (\<lambda>n i out. Inr example_runner),
      doBuildConfigurator = (\<lambda>n i out. Inr \<lparr>configurator_configure = Inr ()\<rparr>)\<rparr>"

definition failing_factory :: factory where
  "failing_factory = example_factory\<lparr>doBuildProvisioner := (\<lambda>n i out. Inr failing_provisioner)\<rparr>"

text \<open>A serializer into two texts, which tells the document of the provisioned example
  state from every other document.\<close>

definition example_dump :: "json \<Rightarrow> string" where
  "example_dump d = (if d = state_object example_provisioned then ''provisioned'' else ''other'')"

definition example_environment :: environment where
  "example_environment = \<lparr>CLOUDYPAD_HOME = None, HOME = Some ''/home/u''\<rparr>"

definition example_world :: "'t world" where
  "example_world =
     \<lparr>this_state = example_state, files = (\<lambda>p. None), environ = example_environment,
      trace = []\<rparr>"

definition auto_approve :: "provision_options option" where
  "auto_approve = Some \<lparr>autoApprove = Some True\<rparr>"

text \<open>The example instance once provisioned and persisted as YAML.\<close>

definition provisioned_world :: "yaml_text world" where
  "provisioned_world =
     \<lparr>this_state = example_provisioned,
      files = (\<lambda>p. None)
        (''/home/u/.cloudypad/instances/box1'' \<mapsto> Dir,
         ''/home/u/.cloudypad/instances/box1/config.yml''
           \<mapsto> File (yaml_dump (state_object example_provisioned))),
      environ = example_environment,
      trace = []\<rparr>"

section \<open>Lemmas on the migration\<close>

lemmas provider_names = CLOUDYPAD_PROVIDER_AWS_def CLOUDYPAD_PROVIDER_AZURE_def
  CLOUDYPAD_PROVIDER_GCP_def CLOUDYPAD_PROVIDER_PAPERSPACE_def

lemma stateV1_props:
  "getprop (stateV1 n p out cfg) ''version'' = JStr ''1''"
  "getprop (stateV1 n p out cfg) ''name'' = n"
  "getprop (getprop (stateV1 n p out cfg) ''provision'') ''provider'' = JStr p"
  "getprop (getprop (stateV1 n p out cfg) ''provision'') ''output'' = JObj out"
  "getprop (getprop (stateV1 n p out cfg) ''provision'') ''config'' = JObj cfg"
  "\<not> nullish (stateV1 n p out cfg)"
  by (simp_all add: stateV1_def)

lemma ensure_current:
  "\<not> nullish d \<Longrightarrow> truthy (getprop d ''version'') \<Longrightarrow>
   ensureStateV1 d =
     (if to_primitive_throws (getprop d ''version'') then Inl TypeError
      else if loose_eq_1 (getprop d ''version'') then Inr d
      else Inl UnknownStateVersion)"
  by (simp add: ensureStateV1_def)

lemma string_is_1_no_throw: "string_is_1 v \<Longrightarrow> \<not> to_primitive_throws v"
  by (induction v rule: string_is_1.induct) auto

lemma loose_eq_1_no_throw: "loose_eq_1 v \<Longrightarrow> \<not> to_primitive_throws v"
  using string_is_1_no_throw[of v] by (cases v) auto

lemma ensure_legacy:
  "\<not> nullish d \<Longrightarrow> \<not> truthy (getprop d ''version'') \<Longrightarrow> ensureStateV1 d = transformV0 d"
  by (simp add: ensureStateV1_def)

lemma awsBranch_Inr:
  "awsBranch d a = Inr s \<Longrightarrow> \<exists>out cfg. s = stateV1 (getprop d ''name'') ''aws'' out cfg"
  by (auto simp: awsBranch_def provider_names split: if_splits)

lemma azureBranch_Inr:
  "azureBranch d a = Inr s \<Longrightarrow> \<exists>out cfg. s = stateV1 (getprop d ''name'') ''azure'' out cfg"
  by (auto simp: azureBranch_def provider_names split: if_splits)

lemma gcpBranch_Inr:
  "gcpBranch d a = Inr s \<Longrightarrow> \<exists>out cfg. s = stateV1 (getprop d ''name'') ''gcp'' out cfg"
  by (auto simp: gcpBranch_def provider_names split: if_splits)

lemma paperspaceBranch_Inr:
  "paperspaceBranch d a = Inr s \<Longrightarrow> \<exists>out cfg. s = stateV1 (getprop d ''name'') ''paperspace'' out cfg"
  by (auto simp: paperspaceBranch_def provider_names split: if_splits)


lemma transformV0_Inr:
  assumes "transformV0 d = Inr s"
  shows "\<exists>p out cfg. s = stateV1 (getprop d ''name'') p out cfg \<and> populatedProviders d \<noteq> []
           \<and> p = hd (populatedProviders d)"
proof -
  let ?P = "\<lambda>q. truthy (optprop (getprop d ''provider'') q)"
  show ?thesis
  proof (cases "?P ''aws''")
    case True
    with assms have "awsBranch d (optprop (getprop d ''provider'') ''aws'') = Inr s"
      by (simp add: transformV0_def Let_def split: if_splits)
    from awsBranch_Inr[OF this] True show ?thesis
      by (auto simp: populatedProviders_def providerObject_def)
  next
    case F1: False
    show ?thesis
    proof (cases "?P ''azure''")
      case True
      with assms F1 have "azureBranch d (optprop (getprop d ''provider'') ''azure'') = Inr s"
        by (simp add: transformV0_def Let_def split: if_splits)
      from azureBranch_Inr[OF this] True F1 show ?thesis
        by (auto simp: populatedProviders_def providerObject_def)
    next
      case F2: False
      show ?thesis
      proof (cases "?P ''gcp''")
        case True
        with assms F1 F2 have "gcpBranch d (optprop (getprop d ''provider'') ''gcp'') = Inr s"
          by (simp add: transformV0_def Let_def split: if_splits)
        from gcpBranch_Inr[OF this] True F1 F2 show ?thesis
          by (auto simp: populatedProviders_def providerObject_def)
      next
        case F3: False
        show ?thesis
        proof (cases "?P ''paperspace''")
          case True
          with assms F1 F2 F3
          have "paperspaceBranch d (optprop (getprop d ''provider'') ''paperspace'') = Inr s"
            by (simp add: transformV0_def Let_def split: if_splits)
          from paperspaceBranch_Inr[OF this] True F1 F2 F3 show ?thesis
            by (auto simp: populatedProviders_def providerObject_def)
        next
          case False
          with assms F1 F2 F3 show ?thesis
            by (simp add: transformV0_def Let_def split: if_splits)
        qed
      qed
    qed
  qed
qed

lemma idem: "ensureStateV1 d = Inr s \<Longrightarrow> ensureStateV1 s = Inr s"
proof (cases "nullish d \<or> truthy (getprop d ''version'')")
  case True
  assume "ensureStateV1 d = Inr s"
  with True show ?thesis by (auto simp: ensureStateV1_def split: if_splits)
next
  case False
  assume "ensureStateV1 d = Inr s"
  with False have "transformV0 d = Inr s" by (simp add: ensureStateV1_def)
  from transformV0_Inr[OF this] obtain p out cfg where "s = stateV1 (getprop d ''name'') p out cfg"
    by blast
  then show ?thesis by (simp add: ensure_current stateV1_props)
qed



lemma populated_single:
  assumes "populatedProviders d = [p]" and "q \<in> {''aws'', ''azure'', ''gcp'', ''paperspace''}"
  shows "truthy (providerObject d q) = (q = p)"
proof -
  let ?xs = "[''aws'', ''azure'', ''gcp'', ''paperspace'']"
  from assms(1) have "set (filter (\<lambda>p. truthy (providerObject d p)) ?xs) = {p}"
    by (simp add: populatedProviders_def)
  then have "{x \<in> set ?xs. truthy (providerObject d x)} = {p}"
    by (simp only: set_filter)
  with assms(2) show ?thesis by auto
qed

lemma populated_single_mem:
  assumes "populatedProviders d = [p]"
  shows "p \<in> {''aws'', ''azure'', ''gcp'', ''paperspace''}"
proof -
  have "p \<in> set (populatedProviders d)" using assms by simp
  then have "p \<in> set [''aws'', ''azure'', ''gcp'', ''paperspace'']"
    unfolding populatedProviders_def by (simp only: set_filter mem_Collect_eq)
  then show ?thesis by simp
qed

lemma transformV0_branch:
  assumes "truthy (getprop d ''host'')" and "sshPresent d" and "populatedProviders d = [p]"
  shows "transformV0 d =
    (if p = ''aws'' then awsBranch d (providerObject d p)
     else if p = ''azure'' then azureBranch d (providerObject d p)
     else if p = ''gcp'' then gcpBranch d (providerObject d p)
     else paperspaceBranch d (providerObject d p))"
proof -
  have t: "\<And>q. q \<in> {''aws'', ''azure'', ''gcp'', ''paperspace''} \<Longrightarrow>
             truthy (optprop (getprop d ''provider'') q) = (q = p)"
    using populated_single[OF assms(3)] by (simp add: providerObject_def)
  have m: "p = ''aws'' \<or> p = ''azure'' \<or> p = ''gcp'' \<or> p = ''paperspace''"
    using populated_single_mem[OF assms(3)] by simp
  from assms(1,2) have pre: "truthy (getprop d ''host'')" "truthy (getprop d ''ssh'')"
    "truthy (getprop (getprop d ''ssh'') ''user'')"
    "truthy (getprop (getprop d ''ssh'') ''privateKeyPath'')"
    by (simp_all add: sshPresent_def)
  from m show ?thesis
    by (elim disjE) (simp_all add: transformV0_def Let_def pre t providerObject_def)
qed

lemma migrate_success:
  assumes "\<not> nullish d" and "\<not> truthy (getprop d ''version'')"
    and "populatedProviders d = [p]" and "requiredLegacyFields d p"
  shows "\<exists>s. ensureStateV1 d = Inr s \<and> getprop s ''version'' = JStr ''1''
     \<and> getprop s ''name'' = getprop d ''name''
     \<and> getprop (getprop s ''provision'') ''provider'' = JStr p
     \<and> getprop (getprop s ''provision'') ''output'' =
        JObj ((''host'', getprop d ''host'')
              # map (\<lambda>f. (f, getprop (providerObject d p) f)) (identifyingFields p))"
proof -
  from assms(4) have h: "truthy (getprop d ''host'')" "sshPresent d"
    by (simp_all add: requiredLegacyFields_def)
  have e: "ensureStateV1 d = transformV0 d" using assms(1,2) by (rule ensure_legacy)
  have m: "p = ''aws'' \<or> p = ''azure'' \<or> p = ''gcp'' \<or> p = ''paperspace''"
    using populated_single_mem[OF assms(3)] by simp
  from m show ?thesis
  proof (elim disjE)
    assume "p = ''aws''"
    with assms(4) show ?thesis
      unfolding e transformV0_branch[OF h assms(3)]
      by (simp add: requiredLegacyFields_def provisionArgsPresent_def awsBranch_def
          stateV1_props provider_names)
  next
    assume "p = ''azure''"
    with assms(4) show ?thesis
      unfolding e transformV0_branch[OF h assms(3)]
      by (simp add: requiredLegacyFields_def provisionArgsPresent_def azureBranch_def
          stateV1_props provider_names)
  next
    assume "p = ''gcp''"
    with assms(4) show ?thesis
      unfolding e transformV0_branch[OF h assms(3)]
      by (simp add: requiredLegacyFields_def provisionArgsPresent_def gcpBranch_def
          stateV1_props provider_names)
  next
    assume "p = ''paperspace''"
    with assms(4) show ?thesis
      unfolding e transformV0_branch[OF h assms(3)]
      by (auto simp add: requiredLegacyFields_def provisionArgsPresent_def paperspaceBranch_def
          apiKeyPresent_def stateV1_props provider_names)
  qed
qed

lemma transformV0_no_host: "\<not> truthy (getprop d ''host'') \<Longrightarrow> transformV0 d = Inl MissingHost"
  by (simp add: transformV0_def Let_def)

lemma transformV0_no_ssh:
  "truthy (getprop d ''host'') \<Longrightarrow> \<not> sshPresent d \<Longrightarrow> transformV0 d = Inl MissingSshConfig"
  by (auto simp add: transformV0_def Let_def sshPresent_def)

lemma migrate_missing:
  assumes "\<not> nullish d" and "\<not> truthy (getprop d ''version'')"
    and "populatedProviders d = [p]" and "\<not> requiredLegacyFields d p"
  shows "\<exists>e. ensureStateV1 d = Inl e \<and> namesMissingField d p e"
proof -
  have e: "ensureStateV1 d = transformV0 d" using assms(1,2) by (rule ensure_legacy)
  show ?thesis
  proof (cases "truthy (getprop d ''host'')")
    case False
    then show ?thesis by (simp add: e transformV0_no_host namesMissingField_def)
  next
    case h: True
    show ?thesis
    proof (cases "sshPresent d")
      case False
      with h show ?thesis by (simp add: e transformV0_no_ssh namesMissingField_def)
    next
      case s: True
      have m: "p = ''aws'' \<or> p = ''azure'' \<or> p = ''gcp'' \<or> p = ''paperspace''"
        using populated_single_mem[OF assms(3)] by simp
      from m show ?thesis
      proof (elim disjE)
        assume "p = ''aws''"
        with assms(4) h s show ?thesis
          unfolding e transformV0_branch[OF h s assms(3)]
          by (auto simp add: requiredLegacyFields_def provisionArgsPresent_def awsBranch_def
              namesMissingField_def)
      next
        assume "p = ''azure''"
        with assms(4) h s show ?thesis
          unfolding e transformV0_branch[OF h s assms(3)]
          by (auto simp add: requiredLegacyFields_def provisionArgsPresent_def azureBranch_def
              namesMissingField_def)
      next
        assume "p = ''gcp''"
        with assms(4) h s show ?thesis
          unfolding e transformV0_branch[OF h s assms(3)]
          by (auto simp add: requiredLegacyFields_def provisionArgsPresent_def gcpBranch_def
              namesMissingField_def)
      next
        assume "p = ''paperspace''"
        with assms(4) h s show ?thesis
          unfolding e transformV0_branch[OF h s assms(3)]
          by (auto simp add: requiredLegacyFields_def provisionArgsPresent_def
              paperspaceBranch_def apiKeyPresent_def namesMissingField_def)
      qed
    qed
  qed
qed

lemma config_apiKey:
  "configApiKey (stateV1 n p out (obj_set ''ssh'' x (obj_set ''apiKey'' y kvs))) = y"
  by (simp add: configApiKey_def stateV1_props obj_set_def update_conv')

lemma paperspace_ensure:
  assumes "\<not> nullish d" and "\<not> truthy (getprop d ''version'')"
    and "populatedProviders d = [''paperspace'']" and "listedLegacyFields d ''paperspace''"
  shows "ensureStateV1 d = paperspaceBranch d (providerObject d ''paperspace'')"
proof -
  from assms(4) have h: "truthy (getprop d ''host'')" "sshPresent d"
    by (simp_all add: listedLegacyFields_def)
  show ?thesis
    by (simp add: ensure_legacy[OF assms(1,2)] transformV0_branch[OF h assms(3)])
qed

lemma paperspace_apiKey:
  assumes "\<not> nullish d" and "\<not> truthy (getprop d ''version'')"
    and "populatedProviders d = [''paperspace'']" and "listedLegacyFields d ''paperspace''"
  shows "(ensureStateV1 d = Inl MissingPaperspaceApiKey) = (\<not> apiKeyPresent d)"
    and "ensureStateV1 d = Inl e \<Longrightarrow> e = MissingPaperspaceApiKey"
    and "truthy (getprop (providerObject d ''paperspace'') ''apiKey'') \<Longrightarrow>
         \<exists>s. ensureStateV1 d = Inr s
           \<and> configApiKey s = getprop (providerObject d ''paperspace'') ''apiKey''"
    and "nullish (getprop (providerObject d ''paperspace'') ''apiKey'') \<Longrightarrow>
         truthy (getprop (getprop (providerObject d ''paperspace'') ''provisionArgs'') ''apiKey'') \<Longrightarrow>
         \<exists>s. ensureStateV1 d = Inr s
           \<and> configApiKey s =
               getprop (getprop (providerObject d ''paperspace'') ''provisionArgs'') ''apiKey''"
proof -
  note e = paperspace_ensure[OF assms]
  from assms(4) have l: "provisionArgsPresent d ''paperspace''"
    "truthy (getprop (providerObject d ''paperspace'') ''machineId'')"
    by (simp_all add: listedLegacyFields_def)
  show "(ensureStateV1 d = Inl MissingPaperspaceApiKey) = (\<not> apiKeyPresent d)"
    using l by (auto simp add: e paperspaceBranch_def provisionArgsPresent_def apiKeyPresent_def)
  show "ensureStateV1 d = Inl e \<Longrightarrow> e = MissingPaperspaceApiKey"
    using l by (auto simp add: e paperspaceBranch_def provisionArgsPresent_def split: if_splits)
  show "truthy (getprop (providerObject d ''paperspace'') ''apiKey'') \<Longrightarrow>
         \<exists>s. ensureStateV1 d = Inr s
           \<and> configApiKey s = getprop (providerObject d ''paperspace'') ''apiKey''"
    using l by (cases "getprop (providerObject d ''paperspace'') ''apiKey''")
       (simp_all add: e paperspaceBranch_def provisionArgsPresent_def config_apiKey coalesce_def)
  show "nullish (getprop (providerObject d ''paperspace'') ''apiKey'') \<Longrightarrow>
         truthy (getprop (getprop (providerObject d ''paperspace'') ''provisionArgs'') ''apiKey'') \<Longrightarrow>
         \<exists>s. ensureStateV1 d = Inr s
           \<and> configApiKey s =
               getprop (getprop (providerObject d ''paperspace'') ''provisionArgs'') ''apiKey''"
    using l by (simp add: e paperspaceBranch_def provisionArgsPresent_def config_apiKey coalesce_def)
qed

section \<open>Lemmas on the store and the orchestrator\<close>

lemma state_object_name: "getprop (state_object st) ''name'' = JStr (name st)"
  by (simp add: state_object_def)

lemma persistState_ok:
  assumes "StateManager_default (environ w) = Inr root"
  shows "InstanceManager_persistState dump w =
    (Inr (), w\<lparr>files := (ensureInstanceDirExists (files w) root (name (this_state w)))
                    (getInstanceConfigPath root (name (this_state w))
                       \<mapsto> File (dump (state_object (this_state w)))),
               trace := trace w @ [EvPersist (state_object (this_state w))]\<rparr>)"
  using assms
  by (simp add: InstanceManager_persistState_def StateManager_persistState_def state_object_name)

lemma provision_fails:
  assumes "buildProvisioner fac (this_state w) = Inr p" and "provisioner_provision p opts = Inl e"
  shows "InstanceManager_provision dump fac opts w = (Inl e, w\<lparr>trace := trace w @ [EvProvision opts]\<rparr>)"
  using assms by (simp add: InstanceManager_provision_def andThen_def build_def await_def)

lemma provision_succeeds:
  assumes "buildProvisioner fac (this_state w) = Inr p" and "provisioner_provision p opts = Inr out"
    and "StateManager_default (environ w) = Inr root"
  shows "InstanceManager_provision dump fac opts w =
    (Inr (), w\<lparr>this_state := (this_state w)\<lparr>provision := (provision (this_state w))\<lparr>provision_output := out\<rparr>\<rparr>,
               files := (ensureInstanceDirExists (files w) root (name (this_state w)))
                    (getInstanceConfigPath root (name (this_state w))
                       \<mapsto> File (dump (state_object ((this_state w)\<lparr>provision := (provision (this_state w))\<lparr>provision_output := out\<rparr>\<rparr>)))),
               trace := trace w @ [EvProvision opts, EvPersist (state_object ((this_state w)\<lparr>provision := (provision (this_state w))\<lparr>provision_output := out\<rparr>\<rparr>))]\<rparr>)"
  using assms
  by (simp add: InstanceManager_provision_def andThen_def build_def await_def set_output_def
      persistState_ok)

lemma not_provisioned:
  assumes "provision_output (provision (this_state w)) = JUndefined"
  shows "InstanceManager_configure dump fac w = (Inl NoProvisionOutputForConfigurator, w)"
    and "InstanceManager_start dump fac w = (Inl (NoProvisionOutputForRunner (name (this_state w))), w)"
    and "InstanceManager_pair dump fac w = (Inl (NoProvisionOutputForRunner (name (this_state w))), w)"
  using assms
  by (simp_all add: InstanceManager_configure_def InstanceManager_start_def InstanceManager_pair_def
      andThen_def build_def buildConfigurator_def buildRunner_def)

lemma removed_paths:
  "removeInstanceDir f root n (getInstanceDir root n) = None"
  "removeInstanceDir f root n (getInstanceConfigPath root n) = None"
  by (simp_all add: removeInstanceDir_def getInstanceConfigPath_def)

lemma config_path_neq_dir: "getInstanceConfigPath root n \<noteq> getInstanceDir root n"
  by (simp add: getInstanceConfigPath_def)

lemma persist_files_exists:
  "instanceExists ((ensureInstanceDirExists f root n)(getInstanceConfigPath root n \<mapsto> x)) root n"
  by (simp add: instanceExists_def ensureInstanceDirExists_def)

lemma persist_files_twice:
  "(ensureInstanceDirExists ((ensureInstanceDirExists f root n)(getInstanceConfigPath root n \<mapsto> x)) root n)
      (getInstanceConfigPath root n \<mapsto> y)
   = (ensureInstanceDirExists f root n)(getInstanceConfigPath root n \<mapsto> y)"
  using config_path_neq_dir[of root n]
  by (auto simp add: ensureInstanceDirExists_def fun_eq_iff)

lemma configure_succeeds:
  assumes "buildConfigurator fac (this_state w) = Inr c" and "configurator_configure c = Inr ()"
    and "StateManager_default (environ w) = Inr root"
  shows "InstanceManager_configure dump fac w =
    (Inr (), w\<lparr>files := (ensureInstanceDirExists (files w) root (name (this_state w)))
                    (getInstanceConfigPath root (name (this_state w))
                       \<mapsto> File (dump (state_object (this_state w)))),
               trace := trace w @ [EvConfigure, EvPersist (state_object (this_state w))]\<rparr>)"
  using assms
  by (simp add: InstanceManager_configure_def andThen_def build_def await_def persistState_ok)

lemma pair_succeeds:
  assumes "buildRunner fac (this_state w) = Inr r" and "runner_pair r = Inr ()"
    and "StateManager_default (environ w) = Inr root"
  shows "InstanceManager_pair dump fac w =
    (Inr (), w\<lparr>files := (ensureInstanceDirExists (files w) root (name (this_state w)))
                    (getInstanceConfigPath root (name (this_state w))
                       \<mapsto> File (dump (state_object (this_state w)))),
               trace := trace w @ [EvPair, EvPersist (state_object (this_state w))]\<rparr>)"
  using assms
  by (simp add: InstanceManager_pair_def andThen_def build_def await_def persistState_ok)

lemma pair_after:
  assumes "buildRunner fac (this_state w) = Inr r" and "runner_pair r = Inr ()"
    and "StateManager_default (environ w) = Inr root"
  shows "\<exists>w'. InstanceManager_pair dump fac w = (Inr (), w')
           \<and> this_state w' = this_state w
           \<and> files w' (getInstanceConfigPath root (name (this_state w)))
               = Some (File (dump (state_object (this_state w))))
           \<and> trace w' = trace w @ [EvPair, EvPersist (state_object (this_state w))]"
  by (simp add: pair_succeeds[OF assms(1,2,3)])

lemma initialize_steps:
  assumes bp: "buildProvisioner fac (this_state w) = Inr p"
    and pr: "provisioner_provision p opts = Inr out"
    and root: "StateManager_default (environ w) = Inr root"
    and st: "st = (this_state w)\<lparr>provision := (provision (this_state w))\<lparr>provision_output := out\<rparr>\<rparr>"
    and bc: "buildConfigurator fac st = Inr c" and cf: "configurator_configure c = Inr ()"
    and w1: "w1 = w\<lparr>this_state := st,
                     files := (ensureInstanceDirExists (files w) root (name st))
                        (getInstanceConfigPath root (name st) \<mapsto> File (dump (state_object st))),
                     trace := trace w @ [EvProvision opts, EvPersist (state_object st)]\<rparr>"
    and w2: "w2 = w1\<lparr>trace := trace w1 @ [EvConfigure, EvPersist (state_object st)]\<rparr>"
  shows "InstanceManager_provision dump fac opts w = (Inr (), w1)"
    and "InstanceManager_configure dump fac w1 = (Inr (), w2)"
    and "InstanceManager_initialize dump fac answer opts w =
     (if autoApproved opts then InstanceManager_pair dump fac w2
      else (case answer of
              Inl e \<Rightarrow> (Inl e, w2\<lparr>trace := trace w2 @ [EvConfirm]\<rparr>)
            | Inr doPair \<Rightarrow>
                if doPair then InstanceManager_pair dump fac (w2\<lparr>trace := trace w2 @ [EvConfirm]\<rparr>)
                else (Inr (), w2\<lparr>trace := trace w2 @ [EvConfirm]\<rparr>)))"
proof -
  have n: "name st = name (this_state w)" by (simp add: st)
  show 1: "InstanceManager_provision dump fac opts w = (Inr (), w1)"
    using provision_succeeds[OF bp pr root, of dump] by (simp add: st w1)
  show 2: "InstanceManager_configure dump fac w1 = (Inr (), w2)"
    using configure_succeeds[of fac w1 c root dump] bc cf root
    by (simp add: w1 w2 persist_files_twice)
  show "InstanceManager_initialize dump fac answer opts w =
     (if autoApproved opts then InstanceManager_pair dump fac w2
      else (case answer of
              Inl e \<Rightarrow> (Inl e, w2\<lparr>trace := trace w2 @ [EvConfirm]\<rparr>)
            | Inr doPair \<Rightarrow>
                if doPair then InstanceManager_pair dump fac (w2\<lparr>trace := trace w2 @ [EvConfirm]\<rparr>)
                else (Inr (), w2\<lparr>trace := trace w2 @ [EvConfirm]\<rparr>)))"
    by (simp add: InstanceManager_initialize_def andThen_def 1 2 await_def split: sum.splits)
qed

lemma persistAll_append:
  "persistAll dump f root (sts @ [st]) =
     (case persistAll dump f root sts of
        Inl e \<Rightarrow> Inl e
      | Inr f' \<Rightarrow> StateManager_persistState dump f' root st)"
  by (induction sts arbitrary: f) (simp_all split: sum.splits)

lemma persistAll_ok:
  "\<forall>s \<in> set sts. \<exists>m. getprop s ''name'' = JStr m \<Longrightarrow> \<exists>f'. persistAll dump f root sts = Inr f'"
proof (induction sts arbitrary: f)
  case Nil
  then show ?case by simp
next
  case (Cons s sts)
  then obtain m where "getprop s ''name'' = JStr m" by auto
  then have "\<exists>g. StateManager_persistState dump f root s = Inr g"
    by (simp add: StateManager_persistState_def)
  then obtain g where g: "StateManager_persistState dump f root s = Inr g" ..
  from Cons.IH[of g] Cons.prems show ?case by (simp add: g)
qed

text \<open>
  What the YAML library reads back: the document without its \<^verbatim>\<open>undefined\<close> entries, which
  is the document itself exactly when it holds no \<^verbatim>\<open>undefined\<close> value.
\<close>

lemma dumped_entries_length: "length (dumped_entries kvs) \<le> length kvs"
  by (induction kvs) auto

lemma dumped_entries_shorter: "dumped_entries kvs \<noteq> kv # kvs"
  using dumped_entries_length[of kvs] by (auto dest: arg_cong[where f = length])

lemma dumped_fixed:
  "(dumped d = d) = (\<not> holds_undefined d)"
  "(dumped_entries kvs = kvs) = (\<not> entries_hold_undefined kvs)"
  "(dumped_elements xs = xs) = (\<not> elements_hold_undefined xs)"
  by (induction d and kvs and xs rule: dumped_dumped_entries_dumped_elements.induct)
     (auto simp add: dumped_entries_shorter)

lemma dumped_entries_lookup:
  "map_of kvs k = Some v \<Longrightarrow> v \<noteq> JUndefined \<Longrightarrow> map_of (dumped_entries kvs) k = Some (dumped v)"
  by (induction kvs) auto

lemma getprop_dumped:
  "getprop d k = v \<Longrightarrow> v \<noteq> JUndefined \<Longrightarrow> getprop (dumped d) k = dumped v"
  by (cases d) (auto simp add: dumped_entries_lookup split: option.splits)

lemma yaml_round_trip: "yaml_load (yaml_dump d) = Inr (dumped d)"
  by (simp add: yaml_dump_def)

lemma persist_then_load_yaml:
  assumes "getprop st ''name'' = JStr n" and "getprop st ''version'' = JStr ''1''"
  shows "\<exists>f'. StateManager_persistState yaml_dump f root st = Inr f'
           \<and> loadInstanceState yaml_load f' root n = Inr (dumped st)"
proof -
  from assms(1) obtain kvs where st: "st = JObj kvs" by (cases st) simp_all
  have nn: "\<not> nullish (dumped st)" by (simp add: st)
  have v: "getprop (dumped st) ''version'' = JStr ''1''"
    using getprop_dumped[OF assms(2)] by simp
  have e: "ensureStateV1 (dumped st) = Inr (dumped st)"
    using nn v by (simp add: ensureStateV1_def)
  show ?thesis
    using assms(1) e
    by (simp add: StateManager_persistState_def loadInstanceState_def persist_files_exists
        yaml_round_trip)
qed

lemma overwrite_then_load_yaml:
  assumes "\<forall>s \<in> set sts. \<exists>m. getprop s ''name'' = JStr m"
    and "getprop st ''name'' = JStr n" and "getprop st ''version'' = JStr ''1''"
  shows "\<exists>f'. persistAll yaml_dump f root (sts @ [st]) = Inr f'
           \<and> loadInstanceState yaml_load f' root n = Inr (dumped st)"
proof -
  from persistAll_ok[OF assms(1)] obtain g where g: "persistAll yaml_dump f root sts = Inr g"
    by blast
  have "\<exists>f'. StateManager_persistState yaml_dump g root st = Inr f'
           \<and> loadInstanceState yaml_load f' root n = Inr (dumped st)"
    using assms(2,3) by (rule persist_then_load_yaml)
  then show ?thesis
    by (simp add: persistAll_append g)
qed

section \<open>Lemmas on the heap-level migration\<close>

text \<open>
  Allocation only appends, so a value returned by the heap-level transform lives in a
  heap that starts with the old one.
\<close>

lemma extends_stateV1:
  "prefix h h1 \<Longrightarrow> extends_to_current h (Inr (h_stateV1 h1 nm p out cfg))"
  by (auto simp add: extends_to_current_def h_stateV1_def alloc_def h_getprop_def nth_append
      elim: prefix_order.trans)

lemma extends_branches:
  "extends_to_current h (h_awsBranch h d a)"
  "extends_to_current h (h_azureBranch h d a)"
  "extends_to_current h (h_gcpBranch h d a)"
  "extends_to_current h (h_paperspaceBranch h d a)"
  by (simp_all add: h_awsBranch_def h_azureBranch_def h_gcpBranch_def h_paperspaceBranch_def
      h_sshConfig_def alloc_def extends_stateV1)
     (simp_all add: extends_to_current_def)

lemma extends_transformV0: "extends_to_current h (h_transformV0 h d)"
  by (simp add: h_transformV0_def Let_def extends_branches)
     (simp add: extends_to_current_def)

lemma deref_Some_ref: "deref h v = Some ob \<Longrightarrow> \<exists>a. v = HRef a"
  by (cases v) simp_all

lemma h_throws_ref: "h_to_primitive_throws h v \<Longrightarrow> \<exists>a. v = HRef a"
  by (erule h_to_primitive_throws.cases) (auto dest: deref_Some_ref)

lemma h_string_is_1_no_throw: "h_string_is_1 h v \<Longrightarrow> \<not> h_to_primitive_throws h v"
proof (induction rule: h_string_is_1.induct)
  case (arr v x)
  show ?case
  proof
    assume "h_to_primitive_throws h v"
    then show False using arr.hyps(1) arr.IH
      by (cases rule: h_to_primitive_throws.cases) auto
  qed
qed (auto dest: h_throws_ref)

lemma h_loose_eq_1_no_throw: "h_loose_eq_1 h v \<Longrightarrow> \<not> h_to_primitive_throws h v"
  using h_string_is_1_no_throw[of h v] h_throws_ref[of h v]
  by (cases v) (auto simp add: h_loose_eq_1_def)

lemma h_ensure_prefix:
  assumes "h_ensureStateV1 h raw = Inr (v, h')"
  shows "prefix h h'"
  using assms extends_transformV0[of h raw]
  by (auto simp add: h_ensureStateV1_def extends_to_current_def split: if_splits)

lemma h_ensure_idem:
  assumes "h_ensureStateV1 h raw = Inr (v, h')"
  shows "h_ensureStateV1 h' v = Inr (v, h')"
proof (cases "h_truthy (h_getprop h raw ''version'')")
  case True
  with assms show ?thesis by (auto simp add: h_ensureStateV1_def split: if_splits)
next
  case False
  with assms have "h_transformV0 h raw = Inr (v, h')"
    by (auto simp add: h_ensureStateV1_def split: if_splits)
  with extends_transformV0[of h raw] h_throws_ref[of h' "HStr ''1''"] show ?thesis
    by (auto simp add: h_ensureStateV1_def h_loose_eq_1_def extends_to_current_def)
qed

lemma prefix_take: "prefix h h' \<Longrightarrow> take (length h) h' = h"
  by (auto simp add: prefix_def)


lemma h_ensure_current:
  "\<not> h_nullish raw \<Longrightarrow> h_truthy (h_getprop h raw ''version'') \<Longrightarrow>
   h_ensureStateV1 h raw =
     (if h_to_primitive_throws h (h_getprop h raw ''version'') then Inl TypeError
      else if h_loose_eq_1 h (h_getprop h raw ''version'') then Inr (raw, h)
      else Inl UnknownStateVersion)"
  by (simp add: h_ensureStateV1_def)




text \<open>
  The heap-level function computes what the document-level function computes: reads,
  tests and object literals correspond step by step.
\<close>

lemma deref_prefix: "deref h v = Some ob \<Longrightarrow> prefix h h' \<Longrightarrow> deref h' v = Some ob"
  by (cases v) (auto simp add: prefix_def nth_append split: if_splits)

lemma repr_prefix: "repr h v j \<Longrightarrow> prefix h h' \<Longrightarrow> repr h' v j"
proof (induction rule: repr.induct)
  case (arr v xs js)
  from arr.IH have "list_all2 (repr h') xs js"
    by (rule list_all2_mono) (simp add: arr.prems)
  with deref_prefix[OF arr.hyps(1) arr.prems] show ?case by (rule repr.arr)
next
  case (obj v kvs jkvs)
  from obj.IH have "list_all2 (repr h') (map snd kvs) (map snd jkvs)"
    by (rule list_all2_mono) (simp add: obj.prems)
  with deref_prefix[OF obj.hyps(1) obj.prems] obj.hyps(2) show ?case by (rule repr.obj)
qed (auto intro: repr.intros)

lemma repr_truthy: "repr h v j \<Longrightarrow> h_truthy v = truthy j"
  by (erule repr.cases) (auto split: if_splits elim: deref.elims)

lemma repr_nullish: "repr h v j \<Longrightarrow> h_nullish v = nullish j"
  by (erule repr.cases) (auto split: if_splits elim: deref.elims)

lemma entries_lookup:
  "map fst kvs = map fst jkvs \<Longrightarrow> list_all2 R (map snd kvs) (map snd jkvs) \<Longrightarrow>
   rel_option R (map_of kvs k) (map_of jkvs k)"
proof (induction kvs arbitrary: jkvs)
  case Nil
  then show ?case by simp
next
  case (Cons kv kvs)
  then obtain jkv jkvs' where j: "jkvs = jkv # jkvs'" by (cases jkvs) auto
  with Cons.prems have "fst kv = fst jkv" "R (snd kv) (snd jkv)" "map fst kvs = map fst jkvs'"
    "list_all2 R (map snd kvs) (map snd jkvs')" by auto
  with Cons.IH[of jkvs'] show ?case
    by (cases kv; cases jkv) (auto simp add: j)
qed

lemma repr_getprop: "repr h v j \<Longrightarrow> repr h (h_getprop h v k) (getprop j k)"
proof (erule repr.cases, goal_cases)
  case (7 v' kvs jkvs)
  from entries_lookup[OF 7(4,5), of k] 7(1,2,3) show ?case
    by (cases "map_of kvs k"; cases "map_of jkvs k")
       (auto simp add: h_getprop_def intro: repr.intros)
qed (auto simp add: h_getprop_def intro: repr.intros)

lemma repr_optprop: "repr h v j \<Longrightarrow> repr h (h_optprop h v k) (optprop j k)"
  by (auto simp add: h_optprop_def optprop_def repr_nullish repr_getprop intro: repr.intros)

lemma repr_coalesce: "repr h a x \<Longrightarrow> repr h b y \<Longrightarrow> repr h (h_coalesce a b) (coalesce x y)"
  by (simp add: h_coalesce_def coalesce_def repr_nullish)

lemma repr_HArray:
  "repr h v j \<Longrightarrow> deref h v = Some (HArray xs) \<Longrightarrow> \<exists>js. j = JArr js \<and> list_all2 (repr h) xs js"
  by (erule repr.cases) auto

lemma repr_JArr:
  "repr h v (JArr js) \<Longrightarrow> \<exists>xs. deref h v = Some (HArray xs) \<and> list_all2 (repr h) xs js"
  by (erule repr.cases) auto

lemma repr_HRef: "repr h (HRef a) j \<Longrightarrow> (\<exists>js. j = JArr js) \<or> (\<exists>jkvs. j = JObj jkvs)"
  by (erule repr.cases) auto

lemma h_string_is_1_repr: "h_string_is_1 h v \<Longrightarrow> repr h v j \<Longrightarrow> string_is_1 j"
proof (induction arbitrary: j rule: h_string_is_1.induct)
  case (arr v x)
  from repr_HArray[OF arr.prems arr.hyps(1)] obtain jx where "j = JArr [jx]" "repr h x jx"
    by (auto simp add: list_all2_Cons1)
  with arr.IH show ?case by simp
qed (auto elim: repr.cases)

lemma string_is_1_repr: "string_is_1 j \<Longrightarrow> repr h v j \<Longrightarrow> h_string_is_1 h v"
proof (induction j arbitrary: v rule: string_is_1.induct)
  case (3 x)
  from repr_JArr[OF "3.prems"(2)] obtain x' where "deref h v = Some (HArray [x'])" "repr h x' x"
    by (auto simp add: list_all2_Cons2)
  with "3.IH"[of x'] "3.prems"(1) show ?case by (auto intro: h_string_is_1.arr)
qed (auto elim: repr.cases intro: h_string_is_1.intros)

lemma repr_loose_eq_1: "repr h v j \<Longrightarrow> h_loose_eq_1 h v = loose_eq_1 j"
proof (cases v)
  case (HRef a)
  assume r: "repr h v j"
  from r h_string_is_1_repr[of h v j] string_is_1_repr[of j h v]
  have "h_string_is_1 h v = string_is_1 j" by blast
  moreover from repr_HRef[OF r[unfolded HRef]] have "loose_eq_1 j = string_is_1 j" by auto
  ultimately show ?thesis by (simp add: h_loose_eq_1_def HRef)
qed (auto simp add: h_loose_eq_1_def elim: repr.cases)

lemma repr_HObject:
  "repr h v j \<Longrightarrow> deref h v = Some (HObject kvs) \<Longrightarrow>
   \<exists>jkvs. j = JObj jkvs \<and> map fst kvs = map fst jkvs
     \<and> list_all2 (repr h) (map snd kvs) (map snd jkvs)"
  by (erule repr.cases) auto

lemma repr_JObj:
  "repr h v (JObj jkvs) \<Longrightarrow>
   \<exists>kvs. deref h v = Some (HObject kvs) \<and> map fst kvs = map fst jkvs
     \<and> list_all2 (repr h) (map snd kvs) (map snd jkvs)"
  by (erule repr.cases) auto

lemma same_keys_lookup:
  "map fst kvs = map fst jkvs \<Longrightarrow> (map_of kvs k = None) = (map_of jkvs k = None)"
  by (metis map_of_eq_None_iff set_map)

lemma list_all2_left: "list_all2 R xs ys \<Longrightarrow> x \<in> set xs \<Longrightarrow> \<exists>y \<in> set ys. R x y"
  by (induction rule: list_all2_induct) auto

lemma list_all2_right: "list_all2 R xs ys \<Longrightarrow> y \<in> set ys \<Longrightarrow> \<exists>x \<in> set xs. R x y"
  by (induction rule: list_all2_induct) auto

lemma h_throws_repr: "h_to_primitive_throws h v \<Longrightarrow> repr h v j \<Longrightarrow> to_primitive_throws j"
proof (induction arbitrary: j rule: h_to_primitive_throws.induct)
  case (obj v kvs)
  from repr_HObject[OF obj.prems obj.hyps(1)] obtain jkvs
    where "j = JObj jkvs" "map fst kvs = map fst jkvs" by blast
  with obj.hyps(2) same_keys_lookup[of kvs jkvs "''toString''"] show ?case by simp
next
  case (arr v xs x)
  from repr_HArray[OF arr.prems arr.hyps(1)] obtain js
    where j: "j = JArr js" and l: "list_all2 (repr h) xs js" by blast
  from list_all2_left[OF l arr.hyps(2)] obtain jx where "jx \<in> set js" "repr h x jx" by blast
  with arr.IH[of jx] j show ?case by auto
qed

lemma throws_repr: "to_primitive_throws j \<Longrightarrow> repr h v j \<Longrightarrow> h_to_primitive_throws h v"
proof (induction j arbitrary: v rule: to_primitive_throws.induct)
  case (1 jkvs)
  from repr_JObj[OF "1.prems"(2)] obtain kvs
    where "deref h v = Some (HObject kvs)" "map fst kvs = map fst jkvs" by blast
  with "1.prems"(1) same_keys_lookup[of kvs jkvs "''toString''"] show ?case
    by (auto intro: h_to_primitive_throws.obj)
next
  case (2 js)
  from repr_JArr[OF "2.prems"(2)] obtain xs
    where d: "deref h v = Some (HArray xs)" and l: "list_all2 (repr h) xs js" by blast
  from "2.prems"(1) obtain jx where jx: "jx \<in> set js" "to_primitive_throws jx" by auto
  from list_all2_right[OF l jx(1)] obtain x where x: "x \<in> set xs" "repr h x jx" by blast
  from "2.IH"[OF jx(1) jx(2) x(2)] d x(1) show ?case
    by (auto intro: h_to_primitive_throws.arr)
qed simp_all

lemma repr_throws: "repr h v j \<Longrightarrow> h_to_primitive_throws h v = to_primitive_throws j"
  using h_throws_repr throws_repr by blast

text \<open>
  A heap value that stands for a document reaches only values that stand for smaller
  documents, so it never reaches itself and \<^verbatim>\<open>JSON.stringify\<close> does not throw on it.
\<close>

lemma size_element: "x \<in> set xs \<Longrightarrow> size x < size (JArr xs)"
  by (induction xs) auto

lemma size_entry: "(k, x) \<in> set kvs \<Longrightarrow> size x < size (JObj kvs)"
  by (induction kvs) auto

lemma child_repr:
  assumes "repr h v j" and "x \<in> set (children h v)"
  shows "\<exists>jx. repr h x jx \<and> size jx < size j"
  using assms(1)
proof (cases rule: repr.cases)
  case (arr xs js)
  with assms(2) have "x \<in> set xs" by (simp add: children_def)
  from list_all2_left[OF arr(3) this] obtain jx where jx: "jx \<in> set js" "repr h x jx" by blast
  from size_element[OF jx(1)] jx(2) arr(1) show ?thesis by blast
next
  case (obj kvs jkvs)
  with assms(2) have "x \<in> set (map snd kvs)" by (simp add: children_def)
  from list_all2_left[OF obj(4) this] obtain jx
    where jx: "jx \<in> set (map snd jkvs)" "repr h x jx" by blast
  from jx(1) obtain k where "(k, jx) \<in> set jkvs" by auto
  from size_entry[OF this] jx(2) obj(1) show ?thesis by blast
qed (use assms(2) in \<open>simp_all add: children_def\<close>)

lemma reaches_repr: "reaches h v x \<Longrightarrow> repr h v j \<Longrightarrow> \<exists>jx. repr h x jx \<and> size jx < size j"
proof (induction arbitrary: j rule: reaches.induct)
  case (child x v)
  then show ?case using child_repr by blast
next
  case (step x v y)
  from child_repr[OF step.prems step.hyps(1)] obtain jx
    where "repr h x jx" "size jx < size j" by blast
  with step.IH[of jx] show ?case by (meson less_trans)
qed

lemma repr_not_on_cycle: "repr h v j \<Longrightarrow> \<not> reaches h v v"
proof (induction j rule: measure_induct_rule[where f = size])
  case (less j)
  show ?case
  proof
    assume r: "reaches h v v"
    from reaches_repr[OF r less.prems] obtain j' where "repr h v j'" "size j' < size j" by blast
    with less.IH[of j'] r show False by blast
  qed
qed

lemma repr_not_circular: "circular h v \<Longrightarrow> repr h v j \<Longrightarrow> False"
proof (induction arbitrary: j rule: circular.induct)
  case (self v)
  then show ?case using repr_not_on_cycle by blast
next
  case (below x v)
  from child_repr[OF below.prems below.hyps(1)] below.IH show ?case by blast
qed

lemma entries_prefix: "entries_repr h kvs jkvs \<Longrightarrow> prefix h h' \<Longrightarrow> entries_repr h' kvs jkvs"
  unfolding entries_repr_def
  by (auto elim!: list_all2_mono intro: repr_prefix)

lemma entries_Nil: "entries_repr h [] []"
  by (simp add: entries_repr_def)

lemma entries_Cons:
  "entries_repr h ((k, v) # kvs) ((k', j) # jkvs) = (k = k' \<and> repr h v j \<and> entries_repr h kvs jkvs)"
  by (auto simp add: entries_repr_def)

lemma entries_obj_set:
  "entries_repr h kvs jkvs \<Longrightarrow> repr h v j \<Longrightarrow> entries_repr h (obj_set k v kvs) (obj_set k j jkvs)"
proof (induction kvs arbitrary: jkvs)
  case Nil
  then show ?case by (simp add: entries_repr_def obj_set_def)
next
  case (Cons kv kvs)
  obtain k1 v1 where kv: "kv = (k1, v1)" by (cases kv)
  from Cons.prems(1) obtain j1 jkvs' where j: "jkvs = (k1, j1) # jkvs'"
    by (cases jkvs) (auto simp add: entries_repr_def kv)
  from Cons.prems(1) have 1: "repr h v1 j1" "entries_repr h kvs jkvs'"
    by (simp_all add: kv j entries_Cons)
  from Cons.IH[OF 1(2) Cons.prems(2)] 1 Cons.prems(2) show ?case
    by (simp add: kv j obj_set_def entries_Cons)
qed

lemma entries_spread: "repr h v j \<Longrightarrow> entries_repr h (h_spread h v) (spread j)"
proof (erule repr.cases, goal_cases)
  case (5 s)
  then show ?case
    by (simp add: h_spread_def entries_repr_def comp_def list_all2_map1 list_all2_map2
        list_all2_same repr.str)
next
  case (6 v' xs js)
  from 6 have len: "length xs = length js" by (simp add: list_all2_lengthD)
  from 6 obtain a where a: "v = HRef a" using deref_Some_ref by blast
  have "map (\<lambda>i. xs ! i) [0..<length xs] = xs" "map (\<lambda>i. js ! i) [0..<length js] = js"
    by (simp_all add: map_nth)
  with 6 len a show ?case
    by (clarsimp simp add: h_spread_def entries_repr_def comp_def)
next
  case (7 v' kvs jkvs)
  from 7 obtain a where a: "v = HRef a" using deref_Some_ref by blast
  with 7 show ?case by (clarsimp simp add: h_spread_def entries_repr_def)
qed (simp_all add: h_spread_def entries_Nil)

lemma repr_new_object:
  "entries_repr h kvs jkvs \<Longrightarrow> repr (h @ [HObject kvs]) (HRef (length h)) (JObj jkvs)"
proof -
  assume e: "entries_repr h kvs jkvs"
  have "entries_repr (h @ [HObject kvs]) kvs jkvs"
    using e by (rule entries_prefix) simp
  then show ?thesis
    by (intro repr.obj[where kvs = kvs]) (simp_all add: entries_repr_def)
qed

lemma repr_object_at:
  "a < length h \<Longrightarrow> h ! a = HObject kvs \<Longrightarrow> entries_repr h kvs jkvs \<Longrightarrow> repr h (HRef a) (JObj jkvs)"
  by (rule repr.obj[where kvs = kvs]) (simp_all add: entries_repr_def)

lemma repr_stateV1:
  assumes "repr h nm jn" and "entries_repr h out jout" and "entries_repr h cfg jcfg"
  shows "simulates (Inr (h_stateV1 h nm p out cfg)) (Inr (stateV1 jn p jout jcfg))"
proof -
  let ?h1 = "h @ [HObject out]"
  let ?h2 = "?h1 @ [HObject cfg]"
  let ?prov = "[(''provider'', HStr p), (''output'', HRef (length h)), (''config'', HRef (length ?h1))]"
  let ?h3 = "?h2 @ [HObject ?prov]"
  let ?top = "[(''name'', nm), (''version'', HStr ''1''), (''provision'', HRef (length ?h2))]"
  have o: "repr ?h2 (HRef (length h)) (JObj jout)"
    using repr_new_object[OF assms(2)] by (rule repr_prefix) simp
  have c: "repr ?h2 (HRef (length ?h1)) (JObj jcfg)"
    by (rule repr_new_object) (rule entries_prefix[OF assms(3)], simp)
  have "entries_repr ?h2 ?prov [(''provider'', JStr p), (''output'', JObj jout), (''config'', JObj jcfg)]"
    using o c by (simp add: entries_Cons entries_Nil repr.str)
  from repr_new_object[OF this]
  have pr: "repr ?h3 (HRef (length ?h2)) (JObj [(''provider'', JStr p), (''output'', JObj jout), (''config'', JObj jcfg)])" .
  have "repr ?h3 nm jn" using assms(1) by (rule repr_prefix) simp
  with pr have "entries_repr ?h3 ?top [(''name'', jn), (''version'', JStr ''1''),
      (''provision'', JObj [(''provider'', JStr p), (''output'', JObj jout), (''config'', JObj jcfg)])]"
    by (simp add: entries_Cons entries_Nil repr.str)
  from repr_new_object[OF this] show ?thesis
    by (simp add: simulates_def h_stateV1_def alloc_def stateV1_def)
qed

lemma sim_build:
  assumes "repr h d jd" and "entries_repr h out jout" and "entries_repr h cfg jcfg"
  shows "simulates
           (case h_sshConfig h d of (ssh, h1) \<Rightarrow>
              Inr (h_stateV1 h1 (h_getprop h d ''name'') p out (obj_set ''ssh'' ssh cfg)))
           (Inr (stateV1 (getprop jd ''name'') p jout (obj_set ''ssh'' (sshConfig jd) jcfg)))"
proof -
  let ?ssh = "[(''user'', h_getprop h (h_getprop h d ''ssh'') ''user''),
               (''privateKeyPath'', h_getprop h (h_getprop h d ''ssh'') ''privateKeyPath'')]"
  let ?h1 = "h @ [HObject ?ssh]"
  have p: "prefix h ?h1" by simp
  have "entries_repr h ?ssh
          [(''user'', getprop (getprop jd ''ssh'') ''user''),
           (''privateKeyPath'', getprop (getprop jd ''ssh'') ''privateKeyPath'')]"
    by (simp add: entries_Cons entries_Nil repr_getprop assms(1))
  from repr_new_object[OF this] have s: "repr ?h1 (HRef (length h)) (sshConfig jd)"
    by (simp add: sshConfig_def)
  have c: "entries_repr ?h1 (obj_set ''ssh'' (HRef (length h)) cfg)
             (obj_set ''ssh'' (sshConfig jd) jcfg)"
    by (rule entries_obj_set[OF entries_prefix[OF assms(3) p] s])
  have n: "repr ?h1 (h_getprop h d ''name'') (getprop jd ''name'')"
    by (rule repr_prefix[OF repr_getprop[OF assms(1)] p])
  from repr_stateV1[OF n entries_prefix[OF assms(2) p] c, of p]
  show ?thesis by (simp add: h_sshConfig_def alloc_def)
qed

lemma sim_Inl: "simulates (Inl e) (Inl e)"
  by (simp add: simulates_def)

lemma truthy_prop: "repr h v j \<Longrightarrow> h_truthy (h_getprop h v k) = truthy (getprop j k)"
  by (rule repr_truthy) (rule repr_getprop)

lemma truthy_prop2:
  "repr h v j \<Longrightarrow> h_truthy (h_getprop h (h_getprop h v k) l) = truthy (getprop (getprop j k) l)"
  by (rule truthy_prop) (rule repr_getprop)

lemmas sim_facts = sim_Inl entries_Cons entries_Nil repr_getprop entries_spread
  entries_obj_set repr_coalesce

lemma sim_aws:
  assumes "repr h d jd" and "repr h a ja"
  shows "simulates (h_awsBranch h d a) (awsBranch jd ja)"
  unfolding h_awsBranch_def awsBranch_def truthy_prop[OF assms(2)] truthy_prop2[OF assms(2)]
  by (auto simp add: sim_facts assms intro!: sim_build[OF assms(1)])

lemma sim_azure:
  assumes "repr h d jd" and "repr h a ja"
  shows "simulates (h_azureBranch h d a) (azureBranch jd ja)"
  unfolding h_azureBranch_def azureBranch_def truthy_prop[OF assms(2)] truthy_prop2[OF assms(2)]
  by (auto simp add: sim_facts assms intro!: sim_build[OF assms(1)])

lemma sim_gcp:
  assumes "repr h d jd" and "repr h a ja"
  shows "simulates (h_gcpBranch h d a) (gcpBranch jd ja)"
  unfolding h_gcpBranch_def gcpBranch_def truthy_prop[OF assms(2)] truthy_prop2[OF assms(2)]
  by (auto simp add: sim_facts assms intro!: sim_build[OF assms(1)])

lemma sim_paperspace:
  assumes "repr h d jd" and "repr h a ja"
  shows "simulates (h_paperspaceBranch h d a) (paperspaceBranch jd ja)"
  unfolding h_paperspaceBranch_def paperspaceBranch_def
    truthy_prop[OF assms(2)] truthy_prop2[OF assms(2)]
  by (auto simp add: sim_facts assms intro!: sim_build[OF assms(1)])

lemma sim_transformV0:
  assumes "repr h d jd"
  shows "simulates (h_transformV0 h d) (transformV0 jd)"
proof -
  have p: "repr h (h_getprop h d ''provider'') (getprop jd ''provider'')"
    by (rule repr_getprop[OF assms])
  have o: "\<And>k. repr h (h_optprop h (h_getprop h d ''provider'') k) (optprop (getprop jd ''provider'') k)"
    by (rule repr_optprop[OF p])
  have t: "\<And>k. h_truthy (h_optprop h (h_getprop h d ''provider'') k)
                = truthy (optprop (getprop jd ''provider'') k)"
    by (rule repr_truthy[OF o])
  have c: "\<not> circular h (h_getprop h d ''provider'')"
    using repr_not_circular[OF _ p] by blast
  show ?thesis
    unfolding h_transformV0_def transformV0_def Let_def
      truthy_prop[OF assms] truthy_prop2[OF assms] t
    by (simp add: sim_Inl c sim_aws[OF assms o] sim_azure[OF assms o] sim_gcp[OF assms o]
        sim_paperspace[OF assms o])
qed

lemma sim_ensureStateV1:
  assumes "repr h raw d"
  shows "simulates (h_ensureStateV1 h raw) (ensureStateV1 d)"
  unfolding h_ensureStateV1_def ensureStateV1_def
    repr_nullish[OF assms] truthy_prop[OF assms] repr_loose_eq_1[OF repr_getprop[OF assms]]
    repr_throws[OF repr_getprop[OF assms]]
  by (simp add: sim_Inl sim_transformV0[OF assms]) (simp add: simulates_def assms)

section \<open>Facts about the example inputs\<close>

lemmas example_docs = legacy_document_def aws_complete_def paperspace_provider_def
  bare_document_def

lemmas vocabulary = providerObject_def populatedProviders_def sshPresent_def
  provisionArgsPresent_def apiKeyPresent_def requiredLegacyFields_def listedLegacyFields_def
  optprop_def

lemma example_root: "StateManager_default example_environment = Inr ''/home/u/.cloudypad''"
  by (simp add: StateManager_default_def StateManager_new_def getEnvironmentDataRootDir_def
      example_environment_def)

lemma example_initialize:
  "buildProvisioner example_factory (this_state example_world) = Inr example_provisioner"
  "provisioner_provision example_provisioner opts = Inr example_output"
  "StateManager_default (environ example_world) = Inr ''/home/u/.cloudypad''"
  "example_provisioned = (this_state example_world)
      \<lparr>provision := (provision (this_state example_world))\<lparr>provision_output := example_output\<rparr>\<rparr>"
  "buildConfigurator example_factory example_provisioned = Inr \<lparr>configurator_configure = Inr ()\<rparr>"
  "configurator_configure \<lparr>configurator_configure = Inr ()\<rparr> = Inr ()"
  "buildRunner example_factory example_provisioned = Inr example_runner"
  "runner_pair example_runner = Inr ()"
  "trace example_world = []"
  by (simp_all add: buildProvisioner_def buildConfigurator_def buildRunner_def example_factory_def
      example_provisioner_def example_world_def example_root example_provisioned_def
      example_output_def example_runner_def)

lemma example_yaml:
  "yaml_dump (state_object example_provisioned) = YamlDocument (state_object example_provisioned)"
  "getInstanceConfigPath ''/home/u/.cloudypad'' (name example_provisioned)
     = ''/home/u/.cloudypad/instances/box1/config.yml''"
  "name example_provisioned = ''box1''"
  "getInstanceConfigPath ''/home/u/.cloudypad'' ''box1''
     = ''/home/u/.cloudypad/instances/box1/config.yml''"
  by (simp_all add: yaml_dump_def state_object_def example_state_def example_provisioned_def
      example_output_def getInstanceConfigPath_def getInstanceDir_def)

lemma legacy_heap_at:
  "length legacy_heap = 6"
  "legacy_heap ! 0 = HObject [(''name'', HStr ''x''), (''provider'', HRef 1),
      (''host'', HStr ''h''), (''ssh'', HRef 4)]"
  "legacy_heap ! 1 = HObject [(''aws'', HRef 2)]"
  "legacy_heap ! 2 = HObject [(''instanceId'', HStr ''i-9''), (''provisionArgs'', HRef 3)]"
  "legacy_heap ! 3 = HObject [(''create'', HRef 5)]"
  "legacy_heap ! 4 = HObject [(''user'', HStr ''u''), (''privateKeyPath'', HStr ''/k'')]"
  "legacy_heap ! 5 = HObject [(''instanceType'', HStr ''g4dn.xlarge'')]"
  by (simp_all add: legacy_heap_def)

lemma legacy_heap_repr: "repr legacy_heap (HRef 0) (legacy_document [(''aws'', aws_complete)])"
proof -
  note e = entries_Cons entries_Nil repr.str
  have 5: "repr legacy_heap (HRef 5) (JObj [(''instanceType'', JStr ''g4dn.xlarge'')])"
    by (rule repr_object_at[OF _ legacy_heap_at(7)]) (simp_all add: legacy_heap_at(1) e)
  have 4: "repr legacy_heap (HRef 4) (JObj [(''user'', JStr ''u''), (''privateKeyPath'', JStr ''/k'')])"
    by (rule repr_object_at[OF _ legacy_heap_at(6)]) (simp_all add: legacy_heap_at(1) e)
  have 3: "repr legacy_heap (HRef 3) (JObj [(''create'', JObj [(''instanceType'', JStr ''g4dn.xlarge'')])])"
    by (rule repr_object_at[OF _ legacy_heap_at(5)]) (simp_all add: legacy_heap_at(1) e 5)
  have 2: "repr legacy_heap (HRef 2) aws_complete"
    unfolding aws_complete_def
    by (rule repr_object_at[OF _ legacy_heap_at(4)]) (simp_all add: legacy_heap_at(1) e 3)
  have 1: "repr legacy_heap (HRef 1) (JObj [(''aws'', aws_complete)])"
    by (rule repr_object_at[OF _ legacy_heap_at(3)]) (simp_all add: legacy_heap_at(1) e 2)
  show ?thesis
    unfolding legacy_document_def
    by (rule repr_object_at[OF _ legacy_heap_at(2)])
       (simp_all add: legacy_heap_at(1) e 1 4 del: One_nat_def)
qed

lemma legacy_heap_run:
  "h_ensureStateV1 legacy_heap (HRef 0) =
     Inr (HRef 10,
          legacy_heap @
          [HObject [(''user'', HStr ''u''), (''privateKeyPath'', HStr ''/k'')],
           HObject [(''host'', HStr ''h''), (''instanceId'', HStr ''i-9'')],
           HObject [(''instanceType'', HStr ''g4dn.xlarge''), (''ssh'', HRef 6)],
           HObject [(''provider'', HStr ''aws''), (''output'', HRef 7), (''config'', HRef 8)],
           HObject [(''name'', HStr ''x''), (''version'', HStr ''1''), (''provision'', HRef 9)]])"
  by (simp add: legacy_heap_def h_ensureStateV1_def h_transformV0_def h_awsBranch_def
      h_getprop_def h_optprop_def h_sshConfig_def h_stateV1_def alloc_def h_spread_def
      obj_set_def provider_names)


section \<open>The claims\<close>

subsection \<open>C1: initialize\<close>

text \<open>
  Claim C1, as the code has it. Let building the provisioner, provisioning, the
  resolution of the data root, building the configurator and configuration succeed.
  Then \<^verbatim>\<open>initialize(opts)\<close> is the run of \<^verbatim>\<open>provision(opts)\<close>, which ends in a world
  \<open>w1\<close>, followed by \<^verbatim>\<open>configure()\<close> from \<open>w1\<close>, which ends in a world \<open>w2\<close>, followed
  by the pairing decision from \<open>w2\<close>. In \<open>w1\<close>, before configuration begins, the state
  held is the provisioned one, the instance directory exists and the instance's document
  on disk is the serialized provisioned state; in \<open>w2\<close>, before the pairing decision, the
  same holds after the second persist. With the auto-approve option set the
  confirmation prompt is skipped and pairing runs at once; without it the prompt is
  asked first, and pairing runs when the answer is yes and is skipped when the answer
  is no (an error of the prompt ends the run). A pairing that succeeds is followed by a
  third persist. In every case the state held at the end is the provisioned one and
  the document on disk is its serialization.
\<close>

theorem initialize_provision_configure_pair:
  assumes "buildProvisioner fac (this_state w) = Inr p"
    and "provisioner_provision p opts = Inr out"
    and "StateManager_default (environ w) = Inr root"
    and "st = (this_state w)\<lparr>provision := (provision (this_state w))\<lparr>provision_output := out\<rparr>\<rparr>"
    and "buildConfigurator fac st = Inr c" and "configurator_configure c = Inr ()"
  shows "\<exists>w1 w2.
       InstanceManager_provision dump fac opts w = (Inr (), w1)
     \<and> this_state w1 = st
     \<and> files w1 (getInstanceConfigPath root (name st)) = Some (File (dump (state_object st)))
     \<and> instanceExists (files w1) root (name st)
     \<and> trace w1 = trace w @ [EvProvision opts, EvPersist (state_object st)]
     \<and> InstanceManager_configure dump fac w1 = (Inr (), w2)
     \<and> this_state w2 = st
     \<and> files w2 (getInstanceConfigPath root (name st)) = Some (File (dump (state_object st)))
     \<and> instanceExists (files w2) root (name st)
     \<and> trace w2 = trace w1 @ [EvConfigure, EvPersist (state_object st)]
     \<and> InstanceManager_initialize dump fac answer opts w =
         (if autoApproved opts then InstanceManager_pair dump fac w2
          else (case answer of
                  Inl e \<Rightarrow> (Inl e, w2\<lparr>trace := trace w2 @ [EvConfirm]\<rparr>)
                | Inr doPair \<Rightarrow>
                    if doPair
                    then InstanceManager_pair dump fac (w2\<lparr>trace := trace w2 @ [EvConfirm]\<rparr>)
                    else (Inr (), w2\<lparr>trace := trace w2 @ [EvConfirm]\<rparr>)))
     \<and> (buildRunner fac st = Inr r \<and> runner_pair r = Inr () \<and> autoApproved opts \<longrightarrow>
          (\<exists>w'. InstanceManager_initialize dump fac answer opts w = (Inr (), w')
             \<and> this_state w' = st
             \<and> files w' (getInstanceConfigPath root (name st))
                 = Some (File (dump (state_object st)))
             \<and> trace w' = trace w @ [EvProvision opts, EvPersist (state_object st),
                                      EvConfigure, EvPersist (state_object st),
                                      EvPair, EvPersist (state_object st)]))
     \<and> (buildRunner fac st = Inr r \<and> runner_pair r = Inr () \<and> \<not> autoApproved opts
          \<and> answer = Inr True \<longrightarrow>
          (\<exists>w'. InstanceManager_initialize dump fac answer opts w = (Inr (), w')
             \<and> this_state w' = st
             \<and> files w' (getInstanceConfigPath root (name st))
                 = Some (File (dump (state_object st)))
             \<and> trace w' = trace w @ [EvProvision opts, EvPersist (state_object st),
                                      EvConfigure, EvPersist (state_object st),
                                      EvConfirm, EvPair, EvPersist (state_object st)]))
     \<and> (\<not> autoApproved opts \<and> answer = Inr False \<longrightarrow>
          (\<exists>w'. InstanceManager_initialize dump fac answer opts w = (Inr (), w')
             \<and> this_state w' = st
             \<and> files w' (getInstanceConfigPath root (name st))
                 = Some (File (dump (state_object st)))
             \<and> trace w' = trace w @ [EvProvision opts, EvPersist (state_object st),
                                      EvConfigure, EvPersist (state_object st),
                                      EvConfirm]))"
proof -
  define w1 where "w1 = w\<lparr>this_state := st,
                     files := (ensureInstanceDirExists (files w) root (name st))
                        (getInstanceConfigPath root (name st) \<mapsto> File (dump (state_object st))),
                     trace := trace w @ [EvProvision opts, EvPersist (state_object st)]\<rparr>"
  define w2 where "w2 = w1\<lparr>trace := trace w1 @ [EvConfigure, EvPersist (state_object st)]\<rparr>"
  note g = initialize_steps(1)[where dump = dump and ?w1.0 = w1 and ?w2.0 = w2,
      OF assms w1_def w2_def]
    initialize_steps(2)[where dump = dump and ?w1.0 = w1 and ?w2.0 = w2,
      OF assms w1_def w2_def]
    initialize_steps(3)[where dump = dump and ?w1.0 = w1 and ?w2.0 = w2 and answer = answer,
      OF assms w1_def w2_def]
  let ?w3 = "w2\<lparr>trace := trace w2 @ [EvConfirm]\<rparr>"
  have e: "this_state w1 = st" "this_state w2 = st" "this_state ?w3 = st"
    "StateManager_default (environ w2) = Inr root"
    "StateManager_default (environ ?w3) = Inr root"
    "trace w1 = trace w @ [EvProvision opts, EvPersist (state_object st)]"
    "trace w2 = trace w1 @ [EvConfigure, EvPersist (state_object st)]"
    "files w2 = files w1" "files ?w3 = files w1"
    using assms(3) by (simp_all add: w1_def w2_def)
  have f: "files w1 (getInstanceConfigPath root (name st)) = Some (File (dump (state_object st)))"
    "instanceExists (files w1) root (name st)"
    "files w1 (getInstanceDir root (name st)) \<noteq> None"
    using persist_files_exists[of "files w" root "name st"]
    by (simp_all add: w1_def instanceExists_def)
  have t2: "trace w2 = trace w @ [EvProvision opts, EvPersist (state_object st),
                                  EvConfigure, EvPersist (state_object st)]"
    by (simp add: e(6,7))
  have p2: "\<exists>w'. InstanceManager_pair dump fac w2 = (Inr (), w') \<and> this_state w' = st
        \<and> files w' (getInstanceConfigPath root (name st)) = Some (File (dump (state_object st)))
        \<and> trace w' = trace w2 @ [EvPair, EvPersist (state_object st)]"
    if "buildRunner fac st = Inr r \<and> runner_pair r = Inr ()"
    using that pair_after[of fac w2 r root dump] by (simp add: e(2,4))
  have p3: "\<exists>w'. InstanceManager_pair dump fac ?w3 = (Inr (), w') \<and> this_state w' = st
        \<and> files w' (getInstanceConfigPath root (name st)) = Some (File (dump (state_object st)))
        \<and> trace w' = trace w2 @ [EvConfirm, EvPair, EvPersist (state_object st)]"
    if "buildRunner fac st = Inr r \<and> runner_pair r = Inr ()"
    using that pair_after[of fac ?w3 r root dump] by (simp add: e(2,4))
  have c1: "buildRunner fac st = Inr r \<and> runner_pair r = Inr () \<and> autoApproved opts \<longrightarrow>
          (\<exists>w'. InstanceManager_initialize dump fac answer opts w = (Inr (), w')
             \<and> this_state w' = st
             \<and> files w' (getInstanceConfigPath root (name st))
                 = Some (File (dump (state_object st)))
             \<and> trace w' = trace w @ [EvProvision opts, EvPersist (state_object st),
                                      EvConfigure, EvPersist (state_object st),
                                      EvPair, EvPersist (state_object st)])"
  proof
    assume a: "buildRunner fac st = Inr r \<and> runner_pair r = Inr () \<and> autoApproved opts"
    then have i: "InstanceManager_initialize dump fac answer opts w
        = InstanceManager_pair dump fac w2"
      unfolding g(3) by simp
    from a p2 show "\<exists>w'. InstanceManager_initialize dump fac answer opts w = (Inr (), w')
             \<and> this_state w' = st
             \<and> files w' (getInstanceConfigPath root (name st))
                 = Some (File (dump (state_object st)))
             \<and> trace w' = trace w @ [EvProvision opts, EvPersist (state_object st),
                                      EvConfigure, EvPersist (state_object st),
                                      EvPair, EvPersist (state_object st)]"
      unfolding i t2 by simp
  qed
  have c2: "buildRunner fac st = Inr r \<and> runner_pair r = Inr () \<and> \<not> autoApproved opts
          \<and> answer = Inr True \<longrightarrow>
          (\<exists>w'. InstanceManager_initialize dump fac answer opts w = (Inr (), w')
             \<and> this_state w' = st
             \<and> files w' (getInstanceConfigPath root (name st))
                 = Some (File (dump (state_object st)))
             \<and> trace w' = trace w @ [EvProvision opts, EvPersist (state_object st),
                                      EvConfigure, EvPersist (state_object st),
                                      EvConfirm, EvPair, EvPersist (state_object st)])"
  proof
    assume a: "buildRunner fac st = Inr r \<and> runner_pair r = Inr () \<and> \<not> autoApproved opts
          \<and> answer = Inr True"
    then have i: "InstanceManager_initialize dump fac answer opts w
        = InstanceManager_pair dump fac ?w3"
      unfolding g(3) by simp
    from a p3 show "\<exists>w'. InstanceManager_initialize dump fac answer opts w = (Inr (), w')
             \<and> this_state w' = st
             \<and> files w' (getInstanceConfigPath root (name st))
                 = Some (File (dump (state_object st)))
             \<and> trace w' = trace w @ [EvProvision opts, EvPersist (state_object st),
                                      EvConfigure, EvPersist (state_object st),
                                      EvConfirm, EvPair, EvPersist (state_object st)]"
      unfolding i t2 by simp
  qed
  have c3: "\<not> autoApproved opts \<and> answer = Inr False \<longrightarrow>
          (\<exists>w'. InstanceManager_initialize dump fac answer opts w = (Inr (), w')
             \<and> this_state w' = st
             \<and> files w' (getInstanceConfigPath root (name st))
                 = Some (File (dump (state_object st)))
             \<and> trace w' = trace w @ [EvProvision opts, EvPersist (state_object st),
                                      EvConfigure, EvPersist (state_object st),
                                      EvConfirm])"
  proof
    assume a: "\<not> autoApproved opts \<and> answer = Inr False"
    then have i: "InstanceManager_initialize dump fac answer opts w = (Inr (), ?w3)"
      unfolding g(3) by simp
    show "\<exists>w'. InstanceManager_initialize dump fac answer opts w = (Inr (), w')
             \<and> this_state w' = st
             \<and> files w' (getInstanceConfigPath root (name st))
                 = Some (File (dump (state_object st)))
             \<and> trace w' = trace w @ [EvProvision opts, EvPersist (state_object st),
                                      EvConfigure, EvPersist (state_object st),
                                      EvConfirm]"
      unfolding i using e(2,8) f(1) t2 by simp
  qed
  show ?thesis
    apply (rule exI[where x = w1])
    apply (rule exI[where x = w2])
    using g(1,2,3) e(1,2,6,7) f(1,2) c1 c2 c3
    by (simp add: e(8))
qed

text \<open>
  The theorem of C1 at the example instance with the YAML serializer. After
  provisioning and again after configuration the document on disk is the serialized
  provisioned state. Without options: answered yes, the run confirms, pairs and
  persists; answered no, it stops after the confirmation. With auto-approve: it pairs
  and persists without a confirmation.
\<close>

theorem initialize_provision_configure_pair_witness:
  "\<not> autoApproved None
   \<and> (\<exists>w1 w2. InstanceManager_provision yaml_dump example_factory None example_world = (Inr (), w1)
        \<and> files w1 ''/home/u/.cloudypad/instances/box1/config.yml''
            = Some (File (YamlDocument (state_object example_provisioned)))
        \<and> trace w1 = [EvProvision None, EvPersist (state_object example_provisioned)]
        \<and> InstanceManager_configure yaml_dump example_factory w1 = (Inr (), w2)
        \<and> files w2 ''/home/u/.cloudypad/instances/box1/config.yml''
            = Some (File (YamlDocument (state_object example_provisioned)))
        \<and> trace w2 = [EvProvision None, EvPersist (state_object example_provisioned),
                       EvConfigure, EvPersist (state_object example_provisioned)])
   \<and> (\<exists>w'. InstanceManager_initialize yaml_dump example_factory (Inr True) None example_world
             = (Inr (), w')
        \<and> this_state w' = example_provisioned
        \<and> files w' ''/home/u/.cloudypad/instances/box1/config.yml''
            = Some (File (YamlDocument (state_object example_provisioned)))
        \<and> trace w' = [EvProvision None, EvPersist (state_object example_provisioned),
                       EvConfigure, EvPersist (state_object example_provisioned),
                       EvConfirm, EvPair, EvPersist (state_object example_provisioned)])
   \<and> (\<exists>w'. InstanceManager_initialize yaml_dump example_factory (Inr False) None example_world
             = (Inr (), w')
        \<and> this_state w' = example_provisioned
        \<and> trace w' = [EvProvision None, EvPersist (state_object example_provisioned),
                       EvConfigure, EvPersist (state_object example_provisioned),
                       EvConfirm])
   \<and> autoApproved auto_approve
   \<and> (\<exists>w'. InstanceManager_initialize yaml_dump example_factory (Inr True) auto_approve
             example_world = (Inr (), w')
        \<and> this_state w' = example_provisioned
        \<and> trace w' = [EvProvision auto_approve, EvPersist (state_object example_provisioned),
                       EvConfigure, EvPersist (state_object example_provisioned),
                       EvPair, EvPersist (state_object example_provisioned)])"
proof -
  let ?cfg = "getInstanceConfigPath ''/home/u/.cloudypad'' (name example_provisioned)"
  let ?doc = "File (yaml_dump (state_object example_provisioned))"
  let ?s = "state_object example_provisioned"
  note T = initialize_provision_configure_pair[OF example_initialize(1-6),
      where r = example_runner and dump = yaml_dump]
  have n: "\<not> autoApproved None" "autoApproved auto_approve"
    by (simp_all add: autoApproved_def auto_approve_def)
  from T[where answer = "Inr True" and opts = None]
  obtain w1 w2 where
    p: "InstanceManager_provision yaml_dump example_factory None example_world = (Inr (), w1)"
    and f1: "files w1 ?cfg = Some ?doc"
    and t1: "trace w1 = trace (example_world :: yaml_text world) @ [EvProvision None, EvPersist ?s]"
    and c: "InstanceManager_configure yaml_dump example_factory w1 = (Inr (), w2)"
    and f2: "files w2 ?cfg = Some ?doc"
    and t2: "trace w2 = trace w1 @ [EvConfigure, EvPersist ?s]"
    and y: "buildRunner example_factory example_provisioned = Inr example_runner
        \<and> runner_pair example_runner = Inr () \<and> \<not> autoApproved None \<and> Inr True = Inr True \<longrightarrow>
        (\<exists>w'. InstanceManager_initialize yaml_dump example_factory (Inr True) None example_world
                 = (Inr (), w')
           \<and> this_state w' = example_provisioned
           \<and> files w' ?cfg = Some ?doc
           \<and> trace w' = trace (example_world :: yaml_text world) @ [EvProvision None, EvPersist ?s,
                                      EvConfigure, EvPersist ?s, EvConfirm, EvPair, EvPersist ?s])"
    by blast
  have a: "\<exists>w1 w2. InstanceManager_provision yaml_dump example_factory None example_world
             = (Inr (), w1)
        \<and> files w1 ''/home/u/.cloudypad/instances/box1/config.yml''
            = Some (File (YamlDocument (state_object example_provisioned)))
        \<and> trace w1 = [EvProvision None, EvPersist (state_object example_provisioned)]
        \<and> InstanceManager_configure yaml_dump example_factory w1 = (Inr (), w2)
        \<and> files w2 ''/home/u/.cloudypad/instances/box1/config.yml''
            = Some (File (YamlDocument (state_object example_provisioned)))
        \<and> trace w2 = [EvProvision None, EvPersist (state_object example_provisioned),
                       EvConfigure, EvPersist (state_object example_provisioned)]"
    apply (rule exI[where x = w1])
    apply (rule exI[where x = w2])
    using p f1 t1 c f2 t2 by (simp add: example_yaml example_initialize(9))
  from y have b: "\<exists>w'. InstanceManager_initialize yaml_dump example_factory (Inr True) None
             example_world = (Inr (), w')
        \<and> this_state w' = example_provisioned
        \<and> files w' ''/home/u/.cloudypad/instances/box1/config.yml''
            = Some (File (YamlDocument (state_object example_provisioned)))
        \<and> trace w' = [EvProvision None, EvPersist (state_object example_provisioned),
                       EvConfigure, EvPersist (state_object example_provisioned),
                       EvConfirm, EvPair, EvPersist (state_object example_provisioned)]"
    by (simp add: example_yaml example_initialize(7-9) n)
  from T[where answer = "Inr False" and opts = None]
  have "\<not> autoApproved None \<and> Inr False = Inr False \<longrightarrow>
        (\<exists>w'. InstanceManager_initialize yaml_dump example_factory (Inr False) None example_world
                 = (Inr (), w')
           \<and> this_state w' = example_provisioned
           \<and> files w' ?cfg = Some ?doc
           \<and> trace w' = trace (example_world :: yaml_text world) @ [EvProvision None, EvPersist ?s,
                                      EvConfigure, EvPersist ?s, EvConfirm])"
    by blast
  then have d: "\<exists>w'. InstanceManager_initialize yaml_dump example_factory (Inr False) None
             example_world = (Inr (), w')
        \<and> this_state w' = example_provisioned
        \<and> trace w' = [EvProvision None, EvPersist (state_object example_provisioned),
                       EvConfigure, EvPersist (state_object example_provisioned),
                       EvConfirm]"
    by (simp add: example_initialize(9) n) blast
  from T[where answer = "Inr True" and opts = auto_approve]
  have "buildRunner example_factory example_provisioned = Inr example_runner
        \<and> runner_pair example_runner = Inr () \<and> autoApproved auto_approve \<longrightarrow>
        (\<exists>w'. InstanceManager_initialize yaml_dump example_factory (Inr True) auto_approve
                 example_world = (Inr (), w')
           \<and> this_state w' = example_provisioned
           \<and> files w' ?cfg = Some ?doc
           \<and> trace w' = trace (example_world :: yaml_text world) @ [EvProvision auto_approve, EvPersist ?s,
                                      EvConfigure, EvPersist ?s, EvPair, EvPersist ?s])"
    by blast
  then have e: "\<exists>w'. InstanceManager_initialize yaml_dump example_factory (Inr True) auto_approve
             example_world = (Inr (), w')
        \<and> this_state w' = example_provisioned
        \<and> trace w' = [EvProvision auto_approve, EvPersist (state_object example_provisioned),
                       EvConfigure, EvPersist (state_object example_provisioned),
                       EvPair, EvPersist (state_object example_provisioned)]"
    by (simp add: example_initialize(7-9) n) blast
  from n a b d e show ?thesis by (intro conjI)
qed

text \<open>
  Against C1 as stated: with auto-approve set, pairing is not skipped. The example run
  pairs and persists without asking, although the answer the prompt would have given
  is no.
\<close>

theorem auto_approve_pairs_without_asking:
  "autoApproved auto_approve
   \<and> fst (InstanceManager_initialize example_dump example_factory (Inr False) auto_approve
           example_world) = Inr ()
   \<and> trace (snd (InstanceManager_initialize example_dump example_factory (Inr False) auto_approve
           example_world))
       = [EvProvision auto_approve, EvPersist (state_object example_provisioned),
          EvConfigure, EvPersist (state_object example_provisioned),
          EvPair, EvPersist (state_object example_provisioned)]"
proof -
  define w1 :: "string world" where "w1 = (example_world :: string world)\<lparr>this_state := example_provisioned,
       files := (ensureInstanceDirExists (files (example_world :: string world)) ''/home/u/.cloudypad''
                   (name example_provisioned))
          (getInstanceConfigPath ''/home/u/.cloudypad'' (name example_provisioned)
             \<mapsto> File (example_dump (state_object example_provisioned))),
       trace := trace (example_world :: string world)
          @ [EvProvision auto_approve, EvPersist (state_object example_provisioned)]\<rparr>"
  define w2 where "w2 = w1\<lparr>trace := trace w1
          @ [EvConfigure, EvPersist (state_object example_provisioned)]\<rparr>"
  have a: "autoApproved auto_approve" by (simp add: autoApproved_def auto_approve_def)
  have e: "this_state w2 = example_provisioned"
    "StateManager_default (environ w2) = Inr ''/home/u/.cloudypad''"
    "trace w2 = [EvProvision auto_approve, EvPersist (state_object example_provisioned),
                 EvConfigure, EvPersist (state_object example_provisioned)]"
    using example_initialize(3)
    by (simp_all add: w1_def w2_def example_initialize(9))
  have i: "InstanceManager_initialize example_dump example_factory (Inr False) auto_approve
      example_world = InstanceManager_pair example_dump example_factory w2"
    using initialize_steps(3)[where dump = example_dump and ?w1.0 = w1 and ?w2.0 = w2
        and answer = "Inr False", OF example_initialize(1-6) w1_def w2_def] a by simp
  show ?thesis
    unfolding i
    using pair_succeeds[of example_factory w2 example_runner "''/home/u/.cloudypad''" example_dump]
    by (simp add: a e example_initialize(7,8))
qed

subsection \<open>C2: documents without a version and their providers\<close>




subsection \<open>C3: documents that declare a version\<close>




subsection \<open>C4: provision\<close>

text \<open>
  Claim C4. Let the factory build a provisioner for the state held. When the provisioner
  returns an output (and the data root resolves), \<^verbatim>\<open>provision(opts)\<close> succeeds, the
  state's output is the returned value and nothing else of the state has changed, the
  instance's document on disk is the serialized new state, and the calls made are the
  provisioning followed by that one persist. When the provisioner fails with an error,
  \<^verbatim>\<open>provision(opts)\<close> fails with the same error, the state and the files are exactly as
  before, and the only call made is the provisioning.
\<close>

theorem provision_replaces_output_or_leaves_it:
  assumes "buildProvisioner fac (this_state w) = Inr p"
  shows "(provisioner_provision p opts = Inr out \<and> StateManager_default (environ w) = Inr root \<longrightarrow>
           (\<exists>w'. InstanceManager_provision dump fac opts w = (Inr (), w')
              \<and> this_state w' =
                  (this_state w)\<lparr>provision := (provision (this_state w))\<lparr>provision_output := out\<rparr>\<rparr>
              \<and> files w' (getInstanceConfigPath root (name (this_state w)))
                  = Some (File (dump (state_object (this_state w'))))
              \<and> trace w' = trace w @ [EvProvision opts, EvPersist (state_object (this_state w'))]))
       \<and> (provisioner_provision p opts = Inl e \<longrightarrow>
           (\<exists>w'. InstanceManager_provision dump fac opts w = (Inl e, w')
              \<and> this_state w' = this_state w \<and> files w' = files w
              \<and> trace w' = trace w @ [EvProvision opts]))"
proof (intro conjI impI)
  assume "provisioner_provision p opts = Inr out \<and> StateManager_default (environ w) = Inr root"
  then show "\<exists>w'. InstanceManager_provision dump fac opts w = (Inr (), w')
              \<and> this_state w' =
                  (this_state w)\<lparr>provision := (provision (this_state w))\<lparr>provision_output := out\<rparr>\<rparr>
              \<and> files w' (getInstanceConfigPath root (name (this_state w)))
                  = Some (File (dump (state_object (this_state w'))))
              \<and> trace w' = trace w @ [EvProvision opts, EvPersist (state_object (this_state w'))]"
    using provision_succeeds[OF assms, of opts out root dump] by simp
next
  assume "provisioner_provision p opts = Inl e"
  then show "\<exists>w'. InstanceManager_provision dump fac opts w = (Inl e, w')
              \<and> this_state w' = this_state w \<and> files w' = files w
              \<and> trace w' = trace w @ [EvProvision opts]"
    using provision_fails[OF assms, of opts e dump] by simp
qed

text \<open>
  The theorem of C4 at the example instance, once with a provisioner that returns an
  output and once with one that fails.
\<close>

theorem provision_replaces_output_or_leaves_it_witness:
  "(\<exists>w'. InstanceManager_provision example_dump example_factory None example_world = (Inr (), w')
      \<and> this_state w' = example_provisioned
      \<and> files w' ''/home/u/.cloudypad/instances/box1/config.yml'' = Some (File ''provisioned'')
      \<and> trace w' = [EvProvision None, EvPersist (state_object example_provisioned)])
   \<and> (\<exists>w'. InstanceManager_provision example_dump failing_factory None example_world
                = (Inl (CollaboratorError ''quota exceeded''), w')
      \<and> this_state w' = example_state \<and> files w' ''/home/u/.cloudypad/instances/box1/config.yml'' = None
      \<and> trace w' = [EvProvision None])"
proof -
  have b: "buildProvisioner example_factory (this_state example_world) = Inr example_provisioner"
    "buildProvisioner failing_factory (this_state example_world) = Inr failing_provisioner"
    by (simp_all add: buildProvisioner_def example_factory_def failing_factory_def)
  have p: "provisioner_provision example_provisioner None = Inr example_output"
    "provisioner_provision failing_provisioner None = Inl (CollaboratorError ''quota exceeded'')"
    by (simp_all add: example_provisioner_def failing_provisioner_def)
  have r: "StateManager_default (environ example_world) = Inr ''/home/u/.cloudypad''"
    by (simp add: example_world_def example_root)
  have s: "this_state example_world = example_state" "files example_world = (\<lambda>p. None)"
    "trace example_world = []" "name example_state = ''box1''"
    by (simp_all add: example_world_def example_state_def)
  from provision_replaces_output_or_leaves_it[OF b(1), where opts = None and out = example_output
      and root = "''/home/u/.cloudypad''" and dump = example_dump] p(1) r
    provision_replaces_output_or_leaves_it[OF b(2), where opts = None
      and e = "CollaboratorError ''quota exceeded''" and dump = example_dump] p(2)
  show ?thesis
    by (auto simp add: s example_provisioned_def getInstanceConfigPath_def getInstanceDir_def
        example_dump_def)
qed

subsection \<open>C5: destroy\<close>

text \<open>
  Claim C5. Let the factory build a provisioner, its destroy succeed and the data root
  resolve. Then \<^verbatim>\<open>destroy(opts)\<close> succeeds and is, after the provisioner's destroy and
  the clearing of the output, the persist of the cleared state, which ends in a world
  \<open>w1\<close>, followed by the removal of the instance directory from \<open>w1\<close>. In \<open>w1\<close>, between
  the persist and the removal, the state held is the cleared one, the instance directory
  exists and the instance's document on disk is the serialized cleared state.
  Afterwards the state's output is absent, and neither the instance directory nor its
  document exists. The calls are, in this order, the provisioner's destroy, the persist
  and the removal.
\<close>

theorem destroy_clears_persists_then_removes:
  assumes "buildProvisioner fac (this_state w) = Inr p" and "provisioner_destroy p opts = Inr ()"
    and "StateManager_default (environ w) = Inr root"
    and "cleared =
           (this_state w)\<lparr>provision := (provision (this_state w))\<lparr>provision_output := JUndefined\<rparr>\<rparr>"
  shows "\<exists>w1 w'.
       InstanceManager_persistState dump
           (w\<lparr>trace := trace w @ [EvDestroy opts], this_state := cleared\<rparr>) = (Inr (), w1)
     \<and> this_state w1 = cleared
     \<and> files w1 (getInstanceConfigPath root (name (this_state w)))
         = Some (File (dump (state_object cleared)))
     \<and> instanceExists (files w1) root (name (this_state w))
     \<and> trace w1 = trace w @ [EvDestroy opts, EvPersist (state_object cleared)]
     \<and> InstanceManager_removeInstanceDir w1 = (Inr (), w')
     \<and> InstanceManager_destroy dump fac opts w = (Inr (), w')
     \<and> this_state w' = cleared
     \<and> trace w' = trace w @ [EvDestroy opts, EvPersist (state_object cleared),
                                EvRemoveInstanceDir (name (this_state w))]
     \<and> \<not> instanceExists (files w') root (name (this_state w))
     \<and> files w' (getInstanceConfigPath root (name (this_state w))) = None"
proof -
  let ?w0 = "w\<lparr>trace := trace w @ [EvDestroy opts], this_state := cleared\<rparr>"
  let ?cfg = "getInstanceConfigPath root (name (this_state w))"
  let ?w1 = "?w0\<lparr>files := (ensureInstanceDirExists (files w) root (name (this_state w)))
                          (?cfg \<mapsto> File (dump (state_object cleared))),
                 trace := trace w @ [EvDestroy opts, EvPersist (state_object cleared)]\<rparr>"
  let ?w' = "?w1\<lparr>files := removeInstanceDir (files ?w1) root (name (this_state w)),
                 trace := trace w @ [EvDestroy opts, EvPersist (state_object cleared),
                                     EvRemoveInstanceDir (name (this_state w))]\<rparr>"
  have n: "name cleared = name (this_state w)" by (simp add: assms(4))
  have r: "StateManager_default (environ ?w0) = Inr root" using assms(3) by simp
  have 1: "InstanceManager_persistState dump ?w0 = (Inr (), ?w1)"
    unfolding persistState_ok[OF r] by (simp add: n)
  have 2: "InstanceManager_removeInstanceDir ?w1 = (Inr (), ?w')"
    using assms(3) by (simp add: InstanceManager_removeInstanceDir_def n)
  have 3: "InstanceManager_destroy dump fac opts w = (Inr (), ?w')"
    using assms(1,2) 1 2
    by (simp add: InstanceManager_destroy_def andThen_def build_def await_def set_output_def
        assms(4)[symmetric])
  have 4: "instanceExists (files ?w1) root (name (this_state w))"
    using persist_files_exists[of "files w" root "name (this_state w)"] by simp
  have 5: "\<not> instanceExists (files ?w') root (name (this_state w))"
    "files ?w' ?cfg = None"
    by (simp_all add: instanceExists_def removed_paths)
  show ?thesis
    apply (rule exI[where x = ?w1])
    apply (rule exI[where x = ?w'])
    using 1 2 3 4 5 by simp
qed

text \<open>
  The theorem of C5 at the provisioned example instance with the YAML serializer: the
  document on disk is the provisioned state before, the cleared state (written without
  an output entry) between the persist and the removal, and gone afterwards.
\<close>

theorem destroy_clears_persists_then_removes_witness:
  "instanceExists (files provisioned_world) ''/home/u/.cloudypad'' ''box1''
   \<and> files provisioned_world ''/home/u/.cloudypad/instances/box1/config.yml''
       = Some (File (YamlDocument (state_object example_provisioned)))
   \<and> (\<exists>w1 w'. InstanceManager_persistState yaml_dump
                   (provisioned_world\<lparr>trace := [EvDestroy None], this_state := example_state\<rparr>)
                 = (Inr (), w1)
        \<and> files w1 ''/home/u/.cloudypad/instances/box1/config.yml''
            = Some (File (YamlDocument
                (JObj [(''version'', JStr ''1''), (''name'', JStr ''box1''),
                       (''provision'',
                          JObj [(''provider'', JStr ''aws''),
                                (''input'', JObj [(''instanceType'', JStr ''g4dn.xlarge'')])])])))
        \<and> instanceExists (files w1) ''/home/u/.cloudypad'' ''box1''
        \<and> InstanceManager_removeInstanceDir w1 = (Inr (), w')
        \<and> InstanceManager_destroy yaml_dump example_factory None provisioned_world = (Inr (), w')
        \<and> provision_output (provision (this_state w')) = JUndefined
        \<and> trace w' = [EvDestroy None, EvPersist (state_object example_state),
                       EvRemoveInstanceDir ''box1'']
        \<and> \<not> instanceExists (files w') ''/home/u/.cloudypad'' ''box1''
        \<and> files w' ''/home/u/.cloudypad/instances/box1/config.yml'' = None)"
proof -
  have b: "buildProvisioner example_factory (this_state provisioned_world) = Inr example_provisioner"
    by (simp add: buildProvisioner_def example_factory_def)
  have d: "provisioner_destroy example_provisioner None = Inr ()"
    by (simp add: example_provisioner_def)
  have r: "StateManager_default (environ provisioned_world) = Inr ''/home/u/.cloudypad''"
    by (simp add: provisioned_world_def example_root)
  have c: "example_state = (this_state provisioned_world)\<lparr>provision :=
        (provision (this_state provisioned_world))\<lparr>provision_output := JUndefined\<rparr>\<rparr>"
    by (simp add: provisioned_world_def example_provisioned_def example_state_def)
  have s: "name (this_state provisioned_world) = ''box1''" "trace provisioned_world = []"
    "getInstanceConfigPath ''/home/u/.cloudypad'' ''box1''
       = ''/home/u/.cloudypad/instances/box1/config.yml''"
    "provision_output (provision example_state) = JUndefined"
    by (simp_all add: provisioned_world_def example_provisioned_def example_state_def
        getInstanceConfigPath_def getInstanceDir_def)
  have y: "yaml_dump (state_object example_state) = YamlDocument
                (JObj [(''version'', JStr ''1''), (''name'', JStr ''box1''),
                       (''provision'',
                          JObj [(''provider'', JStr ''aws''),
                                (''input'', JObj [(''instanceType'', JStr ''g4dn.xlarge'')])])])"
    "yaml_dump (state_object example_provisioned)
       = YamlDocument (state_object example_provisioned)"
    by (simp_all add: yaml_dump_def state_object_def example_state_def example_provisioned_def
        example_output_def)
  have e: "instanceExists (files provisioned_world) ''/home/u/.cloudypad'' ''box1''"
    "files provisioned_world ''/home/u/.cloudypad/instances/box1/config.yml''
       = Some (File (YamlDocument (state_object example_provisioned)))"
    by (simp_all add: instanceExists_def getInstanceDir_def provisioned_world_def y(2))
  from destroy_clears_persists_then_removes[OF b d r c, where dump = yaml_dump] e
  show ?thesis
    by (auto simp add: s y)
qed

subsection \<open>C6: operations on an unprovisioned state\<close>

text \<open>
  Claim C6. On a state whose output is absent, \<^verbatim>\<open>configure()\<close> fails with the
  configurator build error and \<^verbatim>\<open>start()\<close> and \<^verbatim>\<open>pair()\<close> fail with the runner build
  error (the two errors that say the instance is not provisioned); the world after the
  call is the world before it, so nothing was persisted and no collaborator was called.
\<close>

theorem unprovisioned_operations_fail_without_persisting:
  assumes "provision_output (provision (this_state w)) = JUndefined"
  shows "InstanceManager_configure dump fac w = (Inl NoProvisionOutputForConfigurator, w)
     \<and> InstanceManager_start dump fac w = (Inl (NoProvisionOutputForRunner (name (this_state w))), w)
     \<and> InstanceManager_pair dump fac w = (Inl (NoProvisionOutputForRunner (name (this_state w))), w)"
  using not_provisioned[OF assms] by simp

text \<open>
  The theorem of C6 at the unprovisioned example instance.
\<close>

theorem unprovisioned_operations_fail_without_persisting_witness:
  "provision_output (provision (this_state example_world)) = JUndefined
   \<and> InstanceManager_configure example_dump example_factory example_world
       = (Inl NoProvisionOutputForConfigurator, example_world)
   \<and> InstanceManager_start example_dump example_factory example_world
       = (Inl (NoProvisionOutputForRunner ''box1''), example_world)
   \<and> InstanceManager_pair example_dump example_factory example_world
       = (Inl (NoProvisionOutputForRunner ''box1''), example_world)"
proof -
  have a: "provision_output (provision (this_state example_world)) = JUndefined"
    "name (this_state example_world) = ''box1''"
    by (simp_all add: example_world_def example_state_def)
  from unprovisioned_operations_fail_without_persisting[OF a(1), where dump = example_dump
      and fac = example_factory] a
  show ?thesis by simp
qed

subsection \<open>C7: persist, then load\<close>

text \<open>
  Claim C7, as the code and the YAML library have it. Let \<open>st\<close> be a document named \<open>n\<close>
  whose version is \<^verbatim>\<open>"1"\<close>. After any sequence of earlier \<^verbatim>\<open>persistState\<close> calls on
  states with names (of the same instance or of others), starting from any file system,
  \<^verbatim>\<open>persistState(st)\<close> succeeds and \<^verbatim>\<open>loadInstanceState(n)\<close> then returns \<open>st\<close> without
  its \<^verbatim>\<open>undefined\<close> entries (an \<^verbatim>\<open>undefined\<close> array element comes back as \<^verbatim>\<open>null\<close>). What
  is loaded is \<open>st\<close> itself exactly when \<open>st\<close> holds no \<^verbatim>\<open>undefined\<close> value.
\<close>

theorem persist_then_load_round_trip:
  assumes "\<forall>s \<in> set sts. \<exists>m. getprop s ''name'' = JStr m"
    and "getprop st ''name'' = JStr n" and "getprop st ''version'' = JStr ''1''"
  shows "\<exists>f'. persistAll yaml_dump f root (sts @ [st]) = Inr f'
           \<and> loadInstanceState yaml_load f' root n = Inr (dumped st)
           \<and> (loadInstanceState yaml_load f' root n = Inr st) = (\<not> holds_undefined st)"
  using overwrite_then_load_yaml[OF assms, of f root] dumped_fixed(1)[of st] by auto

text \<open>
  The theorem of C7 at the provisioned example instance, which holds no \<^verbatim>\<open>undefined\<close>
  value: its document is overwritten three times before the last persist, and the
  state loaded is the state persisted.
\<close>

theorem persist_then_load_round_trip_witness:
  "getprop (state_object example_provisioned) ''name'' = JStr ''box1''
   \<and> getprop (state_object example_provisioned) ''version'' = JStr ''1''
   \<and> \<not> holds_undefined (state_object example_provisioned)
   \<and> (\<exists>f'. persistAll yaml_dump (\<lambda>p. None) ''/data''
              [state_object example_state, state_object example_provisioned,
               state_object example_state, state_object example_provisioned] = Inr f'
         \<and> loadInstanceState yaml_load f' ''/data'' ''box1''
             = Inr (state_object example_provisioned))"
proof -
  have a: "\<forall>s \<in> set [state_object example_state, state_object example_provisioned,
               state_object example_state]. \<exists>m. getprop s ''name'' = JStr m"
    by (simp add: state_object_name)
  have b: "getprop (state_object example_provisioned) ''name'' = JStr ''box1''"
    "getprop (state_object example_provisioned) ''version'' = JStr ''1''"
    "\<not> holds_undefined (state_object example_provisioned)"
    by (simp_all add: state_object_def example_provisioned_def example_state_def
        example_output_def)
  from persist_then_load_round_trip[where st = "state_object example_provisioned"
      and n = "''box1''"
      and sts = "[state_object example_state, state_object example_provisioned,
               state_object example_state]"
      and f = "\<lambda>p. None" and root = "''/data''", OF a b(1,2)] b
  show ?thesis by auto
qed

text \<open>
  Against C7 as stated: the unprovisioned example state, whose output is
  \<^verbatim>\<open>undefined\<close> as \<^verbatim>\<open>destroy\<close> leaves it, is persisted and loaded; the document that
  comes back has no output entry and is not the document that was persisted.
\<close>

theorem cleared_state_read_back_without_output:
  "holds_undefined (state_object example_state)
   \<and> (case StateManager_persistState yaml_dump (\<lambda>p. None) ''/data'' (state_object example_state) of
        Inl e \<Rightarrow> Inl e
      | Inr f' \<Rightarrow> loadInstanceState yaml_load f' ''/data'' ''box1'')
       = Inr (JObj [(''version'', JStr ''1''), (''name'', JStr ''box1''),
                    (''provision'',
                       JObj [(''provider'', JStr ''aws''),
                             (''input'', JObj [(''instanceType'', JStr ''g4dn.xlarge'')])])])
   \<and> JObj [(''version'', JStr ''1''), (''name'', JStr ''box1''),
            (''provision'',
               JObj [(''provider'', JStr ''aws''),
                     (''input'', JObj [(''instanceType'', JStr ''g4dn.xlarge'')])])]
       \<noteq> state_object example_state"
  by (simp add: state_object_def example_state_def StateManager_persistState_def
      loadInstanceState_def yaml_dump_def ensureStateV1_def instanceExists_def
      ensureInstanceDirExists_def getInstanceConfigPath_def getInstanceDir_def)

subsection \<open>C8: migration of a legacy document\<close>

text \<open>
  Claim C8, as the code has it. Let a document that is not null declare no version and
  populate exactly one recognized provider \<open>p\<close>. When every legacy field the transform
  requires is present (host, the SSH user and key path, the provider's creation
  arguments, its identifying fields, and for Paperspace an API key at provider level or
  in the provision arguments), the migration succeeds with a state of version
  \<^verbatim>\<open>"1"\<close>, the same name, provider \<open>p\<close>, and an output made of the legacy host and
  the provider's identifying fields under their own names. When one of them is
  missing, it fails with an error that names a field that is indeed missing.
\<close>

theorem legacy_document_migrates:
  assumes "\<not> nullish d" and "\<not> truthy (getprop d ''version'')"
    and "populatedProviders d = [p]"
  shows "(requiredLegacyFields d p \<longrightarrow>
           (\<exists>s. ensureStateV1 d = Inr s \<and> getprop s ''version'' = JStr ''1''
              \<and> getprop s ''name'' = getprop d ''name''
              \<and> getprop (getprop s ''provision'') ''provider'' = JStr p
              \<and> getprop (getprop s ''provision'') ''output'' =
                   JObj ((''host'', getprop d ''host'')
                         # map (\<lambda>f. (f, getprop (providerObject d p) f)) (identifyingFields p))))
       \<and> (\<not> requiredLegacyFields d p \<longrightarrow>
           (\<exists>e. ensureStateV1 d = Inl e \<and> namesMissingField d p e))"
  using migrate_success[OF assms] migrate_missing[OF assms] by blast

text \<open>
  The theorem of C8 at the complete legacy AWS document, and at the AWS document that
  lacks its provision arguments.
\<close>

theorem legacy_document_migrates_witness:
  "populatedProviders (legacy_document [(''aws'', aws_complete)]) = [''aws'']
   \<and> requiredLegacyFields (legacy_document [(''aws'', aws_complete)]) ''aws''
   \<and> (\<exists>s. ensureStateV1 (legacy_document [(''aws'', aws_complete)]) = Inr s
         \<and> getprop (getprop s ''provision'') ''output''
             = JObj [(''host'', JStr ''h''), (''instanceId'', JStr ''i-9'')])
   \<and> populatedProviders (legacy_document [(''aws'', JObj [(''instanceId'', JStr ''i-9'')])]) = [''aws'']
   \<and> \<not> requiredLegacyFields (legacy_document [(''aws'', JObj [(''instanceId'', JStr ''i-9'')])]) ''aws''
   \<and> (\<exists>e. ensureStateV1 (legacy_document [(''aws'', JObj [(''instanceId'', JStr ''i-9'')])]) = Inl e
         \<and> namesMissingField (legacy_document [(''aws'', JObj [(''instanceId'', JStr ''i-9'')])]) ''aws'' e)"
proof -
  let ?a = "legacy_document [(''aws'', aws_complete)]"
  let ?b = "legacy_document [(''aws'', JObj [(''instanceId'', JStr ''i-9'')])]"
  have a: "\<not> nullish ?a" "\<not> truthy (getprop ?a ''version'')" "populatedProviders ?a = [''aws'']"
    "requiredLegacyFields ?a ''aws''"
    by (simp_all add: example_docs vocabulary)
  have b: "\<not> nullish ?b" "\<not> truthy (getprop ?b ''version'')" "populatedProviders ?b = [''aws'']"
    "\<not> requiredLegacyFields ?b ''aws''"
    by (simp_all add: example_docs vocabulary)
  have "getprop ?a ''host'' = JStr ''h''" "getprop (providerObject ?a ''aws'') ''instanceId'' = JStr ''i-9''"
    by (simp_all add: example_docs vocabulary)
  with legacy_document_migrates[OF a(1,2,3)] legacy_document_migrates[OF b(1,2,3)] a b
  show ?thesis by auto
qed

text \<open>
  Against C8 as stated: a Paperspace document with host, SSH fields, creation arguments
  and machine id, the fields the claim lists, does not migrate when it has no API key.
\<close>

theorem paperspace_without_api_key_fails:
  "populatedProviders (legacy_document [(''paperspace'', paperspace_provider [] [])]) = [''paperspace'']
   \<and> listedLegacyFields (legacy_document [(''paperspace'', paperspace_provider [] [])]) ''paperspace''
   \<and> ensureStateV1 (legacy_document [(''paperspace'', paperspace_provider [] [])])
       = Inl MissingPaperspaceApiKey"
  by (simp add: example_docs vocabulary ensureStateV1_def transformV0_def paperspaceBranch_def)

subsection \<open>C9: idempotence and the source document\<close>

text \<open>
  Claim C9. On documents: a state the migration returns is returned unchanged when it is
  migrated again, and a document already at the current version is returned as it is.
  On the heap: a successful call leaves every object of the heap it started from as it
  was (the heap after the call starts with the heap before it), a second call on the
  result returns the same reference and changes nothing, and a call on a
  current-version document returns the reference it was given and the same heap. The
  two levels agree: for a heap value that stands for a document, the heap-level result
  stands for the document-level result.
\<close>

theorem migration_idempotent_and_non_mutating:
  "(ensureStateV1 d = Inr s \<longrightarrow> ensureStateV1 s = Inr s)
   \<and> (\<not> nullish d \<and> truthy (getprop d ''version'') \<and> loose_eq_1 (getprop d ''version'') \<longrightarrow>
        ensureStateV1 d = Inr d)
   \<and> (h_ensureStateV1 h raw = Inr (v, h') \<longrightarrow>
        take (length h) h' = h \<and> h_ensureStateV1 h' v = Inr (v, h'))
   \<and> (\<not> h_nullish raw \<and> h_truthy (h_getprop h raw ''version'')
        \<and> h_loose_eq_1 h (h_getprop h raw ''version'') \<longrightarrow>
        h_ensureStateV1 h raw = Inr (raw, h))
   \<and> (repr h raw d \<longrightarrow> simulates (h_ensureStateV1 h raw) (ensureStateV1 d))"
proof (intro conjI impI)
  assume "ensureStateV1 d = Inr s"
  then show "ensureStateV1 s = Inr s" by (rule idem)
next
  assume "\<not> nullish d \<and> truthy (getprop d ''version'') \<and> loose_eq_1 (getprop d ''version'')"
  then show "ensureStateV1 d = Inr d"
    using ensure_current[of d] loose_eq_1_no_throw[of "getprop d ''version''"] by simp
next
  assume a: "h_ensureStateV1 h raw = Inr (v, h')"
  from h_ensure_prefix[OF a] show "take (length h) h' = h" by (rule prefix_take)
  from a show "h_ensureStateV1 h' v = Inr (v, h')" by (rule h_ensure_idem)
next
  assume "\<not> h_nullish raw \<and> h_truthy (h_getprop h raw ''version'')
        \<and> h_loose_eq_1 h (h_getprop h raw ''version'')"
  then show "h_ensureStateV1 h raw = Inr (raw, h)"
    using h_ensure_current[of raw h] h_loose_eq_1_no_throw[of h "h_getprop h raw ''version''"]
    by simp
next
  assume "repr h raw d"
  then show "simulates (h_ensureStateV1 h raw) (ensureStateV1 d)" by (rule sim_ensureStateV1)
qed

text \<open>
  The theorem of C9 at the legacy AWS document on its heap: the call allocates five
  objects after the six of the document and changes none of those.
\<close>

theorem migration_idempotent_and_non_mutating_witness:
  "repr legacy_heap (HRef 0) (legacy_document [(''aws'', aws_complete)])
   \<and> (\<exists>v h' s. h_ensureStateV1 legacy_heap (HRef 0) = Inr (v, h')
        \<and> length h' = 11
        \<and> take (length legacy_heap) h' = legacy_heap
        \<and> h_ensureStateV1 h' v = Inr (v, h')
        \<and> ensureStateV1 (legacy_document [(''aws'', aws_complete)]) = Inr s
        \<and> repr h' v s
        \<and> ensureStateV1 s = Inr s)"
proof -
  let ?d = "legacy_document [(''aws'', aws_complete)]"
  obtain v h' where run: "h_ensureStateV1 legacy_heap (HRef 0) = Inr (v, h')" and len: "length h' = 11"
    using legacy_heap_run by (simp add: legacy_heap_def)
  have "simulates (h_ensureStateV1 legacy_heap (HRef 0)) (ensureStateV1 ?d)"
    using migration_idempotent_and_non_mutating[of ?d undefined legacy_heap "HRef 0" v h']
      legacy_heap_repr by blast
  then obtain s where s: "ensureStateV1 ?d = Inr s" "repr h' v s"
    by (auto simp add: simulates_def run split: sum.splits)
  from migration_idempotent_and_non_mutating[of ?d s legacy_heap "HRef 0" v h'] run len s
    legacy_heap_repr
  show ?thesis by blast
qed

subsection \<open>C10: the Paperspace API key\<close>

text \<open>
  Claim C10, as the code has it. Let a document that is not null declare no version,
  populate Paperspace alone, and have host, SSH fields, creation arguments and machine
  id. The migration fails exactly when neither the provider-level API key nor the one
  in the provision arguments is truthy (absent, null or empty), and fails with no other
  error. When the provider-level key is truthy it becomes the config's API key; when it
  is absent or null and the key in the provision arguments is truthy, that one does.
\<close>

theorem paperspace_api_key_resolution:
  assumes "\<not> nullish d" and "\<not> truthy (getprop d ''version'')"
    and "populatedProviders d = [''paperspace'']" and "listedLegacyFields d ''paperspace''"
  shows "(ensureStateV1 d = Inl MissingPaperspaceApiKey) = (\<not> apiKeyPresent d)
     \<and> (\<forall>e. ensureStateV1 d = Inl e \<longrightarrow> e = MissingPaperspaceApiKey)
     \<and> (truthy (getprop (providerObject d ''paperspace'') ''apiKey'') \<longrightarrow>
          (\<exists>s. ensureStateV1 d = Inr s
             \<and> configApiKey s = getprop (providerObject d ''paperspace'') ''apiKey''))
     \<and> (nullish (getprop (providerObject d ''paperspace'') ''apiKey'')
          \<and> truthy (getprop (getprop (providerObject d ''paperspace'') ''provisionArgs'') ''apiKey'') \<longrightarrow>
          (\<exists>s. ensureStateV1 d = Inr s
             \<and> configApiKey s =
                 getprop (getprop (providerObject d ''paperspace'') ''provisionArgs'') ''apiKey''))"
  using paperspace_apiKey[OF assms] by blast

text \<open>
  The theorem of C10 at a document whose only API key is the one in the provision
  arguments.
\<close>

theorem paperspace_api_key_resolution_witness:
  "populatedProviders
      (legacy_document [(''paperspace'', paperspace_provider [] [(''apiKey'', JStr ''k2'')])])
     = [''paperspace'']
   \<and> listedLegacyFields
      (legacy_document [(''paperspace'', paperspace_provider [] [(''apiKey'', JStr ''k2'')])])
      ''paperspace''
   \<and> (\<exists>s. ensureStateV1
           (legacy_document [(''paperspace'', paperspace_provider [] [(''apiKey'', JStr ''k2'')])])
           = Inr s \<and> configApiKey s = JStr ''k2'')"
proof -
  let ?d = "legacy_document [(''paperspace'', paperspace_provider [] [(''apiKey'', JStr ''k2'')])]"
  have a: "\<not> nullish ?d" "\<not> truthy (getprop ?d ''version'')"
    "populatedProviders ?d = [''paperspace'']" "listedLegacyFields ?d ''paperspace''"
    by (simp_all add: example_docs vocabulary)
  have b: "nullish (getprop (providerObject ?d ''paperspace'') ''apiKey'')"
    "getprop (getprop (providerObject ?d ''paperspace'') ''provisionArgs'') ''apiKey'' = JStr ''k2''"
    by (simp_all add: example_docs vocabulary)
  from paperspace_api_key_resolution[OF a] a b show ?thesis by simp
qed

text \<open>
  Against C10 as stated: a provider-level API key that is present but empty makes the
  migration fail when the provision arguments have none, and is itself taken as the
  config's API key when the provision arguments have one.
\<close>

theorem paperspace_empty_api_key:
  "ensureStateV1
      (legacy_document [(''paperspace'', paperspace_provider [(''apiKey'', JStr [])] [])])
     = Inl MissingPaperspaceApiKey
   \<and> ensureStateV1
      (legacy_document
         [(''paperspace'', paperspace_provider [(''apiKey'', JStr [])] [(''apiKey'', JStr ''k2'')])])
     = Inr (stateV1 (JStr ''x'') ''paperspace''
              [(''host'', JStr ''h''), (''machineId'', JStr ''m-1'')]
              [(''machineType'', JStr ''P4000''), (''apiKey'', JStr []),
               (''ssh'', JObj [(''user'', JStr ''u''), (''privateKeyPath'', JStr ''/k'')])])"
  by (simp add: example_docs vocabulary ensureStateV1_def transformV0_def paperspaceBranch_def
      sshConfig_def obj_set_def provider_names coalesce_def)

end
